theory Spec2Isabelle
  imports Complex_Main
begin

section \<open>Values\<close>

text \<open>
  The numeric model is the usual idealisation of \<open>float64\<close> by the reals: rounding,
  overflow and signed zeros are not modelled.  The two places of the source where numpy
  produces a non-finite value without raising are written out: the frequency axis for
  \<open>dt = 0\<close> (an \<open>option\<close> on the field) and the mean over an empty taper axis (an
  \<open>option\<close> on every entry of the averaged density).
\<close>

subsection \<open>Quaternions (the \<open>quaternion\<close> package)\<close>

datatype quat = Quat (qw: real) (qx: real) (qy: real) (qz: real)

definition qzero :: quat where
  "qzero = Quat 0 0 0 0"

text \<open>\<open>quaternion.y\<close>, the unit \<open>j\<close>.\<close>

definition quaternion_y :: quat where
  "quaternion_y = Quat 0 0 1 0"

text \<open>A float operand of a quaternion operation is promoted to a quaternion.\<close>

definition qreal :: "real \<Rightarrow> quat" where
  "qreal r = Quat r 0 0 0"

definition qadd :: "quat \<Rightarrow> quat \<Rightarrow> quat" where
  "qadd p q = Quat (qw p + qw q) (qx p + qx q) (qy p + qy q) (qz p + qz q)"

text \<open>Product of a real scalar and a quaternion.\<close>

definition qscale :: "real \<Rightarrow> quat \<Rightarrow> quat" where
  "qscale c q = Quat (c * qw q) (c * qx q) (c * qy q) (c * qz q)"

text \<open>Hamilton product.\<close>

definition qmul :: "quat \<Rightarrow> quat \<Rightarrow> quat" where
  "qmul p q = Quat
     (qw p * qw q - qx p * qx q - qy p * qy q - qz p * qz q)
     (qw p * qx q + qx p * qw q + qy p * qz q - qz p * qy q)
     (qw p * qy q - qx p * qz q + qy p * qw q + qz p * qx q)
     (qw p * qz q + qx p * qy q - qy p * qx q + qz p * qw q)"

text \<open>\<open>np.norm\<close> on a quaternion: the squared magnitude, a real.\<close>

definition qnorm :: "quat \<Rightarrow> real" where
  "qnorm q = qw q * qw q + qx q * qx q + qy q * qy q + qz q * qz q"

subsection \<open>Arrays, Python objects and exceptions\<close>

text \<open>The signal argument is an array of some dtype; only the quaternion one is accepted.\<close>

datatype ndarray =
    QuatArray "quat list"
  | FloatArray "real list"
  | ComplexArray "complex list"

fun dtype :: "ndarray \<Rightarrow> string" where
  "dtype (QuatArray _) = ''quaternion''"
| "dtype (FloatArray _) = ''float64''"
| "dtype (ComplexArray _) = ''complex128''"

fun quats :: "ndarray \<Rightarrow> quat list" where
  "quats (QuatArray q) = q"
| "quats _ = []"

text \<open>
  The exceptions the modelled paths can raise.  \<open>ValueError\<close> carries the message: the
  three messages of \<open>spectral.py\<close>, and numpy's own for a negative dimension and for
  shapes that do not broadcast.
\<close>

datatype error =
    ValueError string
  | IndexError
  | ZeroDivisionError
  | NonFinite

text \<open>
  \<open>NonFinite\<close> is not a Python exception: it marks the one place
  (\<open>Periodogram.compute\<close> on an object with an empty signal, which no constructor
  produces) where numpy would go on with \<open>inf\<close> or \<open>nan\<close> and the real-valued model stops.
  For arrays whose shapes do not broadcast, \<open>!=\<close> raises as the arithmetic operators do
  (numpy 1.25 and later; earlier versions warn and answer \<open>True\<close>).
\<close>

definition msg_not_quaternion :: string where
  "msg_not_quaternion = ''signal array should be of quaternion type.''"

definition msg_time_arrays :: string where
  "msg_time_arrays = ''Cannot sum Periodograms with differents time                 arrays''"

definition msg_scalar_only :: string where
  "msg_scalar_only = ''Only scalar multiplication is supported''"

definition msg_negative_dimensions :: string where
  "msg_negative_dimensions = ''negative dimensions are not allowed''"

definition msg_broadcast :: string where
  "msg_broadcast = ''operands could not be broadcast together''"

text \<open>
  An element-wise binary operation on two one-dimensional arrays, with numpy's
  broadcasting: equal lengths, or one side of length 1; anything else raises.
\<close>

definition np_map2 :: "('a \<Rightarrow> 'b \<Rightarrow> 'c) \<Rightarrow> 'a list \<Rightarrow> 'b list \<Rightarrow> error + 'c list" where
  "np_map2 g xs ys =
     (if length xs = length ys then Inr (map2 g xs ys)
      else if length xs = 1 then Inr (map (g (hd xs)) ys)
      else if length ys = 1 then Inr (map (\<lambda>x. g x (hd ys)) xs)
      else Inl (ValueError msg_broadcast))"

text \<open>
  \<open>np.any\<close> returns a numpy boolean, which is a different object from Python's
  \<open>True\<close> and \<open>False\<close>; the operator \<open>is\<close> compares object identity.
\<close>

datatype pyobj = PyBool bool | NpBool bool

definition np_any :: "bool list \<Rightarrow> pyobj" where
  "np_any bs = NpBool (list_ex (\<lambda>b. b) bs)"

definition py_is_True :: "pyobj \<Rightarrow> bool" where
  "py_is_True v = (v = PyBool True)"

text \<open>The right operand of \<open>*\<close>: a number or a one-dimensional array of numbers.\<close>

datatype operand = Scalar real | Array "real list"

fun np_size :: "operand \<Rightarrow> nat" where
  "np_size (Scalar _) = 1"
| "np_size (Array cs) = length cs"

fun np_scale :: "operand \<Rightarrow> quat list \<Rightarrow> error + quat list" where
  "np_scale (Scalar c) d = Inr (map (qscale c) d)"
| "np_scale (Array cs) d = np_map2 qscale cs d"

text \<open>\<open>np.fft.fftfreq(n)\<close> with the default spacing; it divides by \<open>n\<close>.\<close>

definition fftfreq :: "nat \<Rightarrow> real list" where
  "fftfreq n =
     (let val = 1 / real n;
          N1 = (n - 1) div 2 + 1;
          results = [0..int N1 - 1] @ [- int (n div 2)..- 1]
      in map (\<lambda>i. real_of_int i * val) results)"

section \<open>Collaborators outside \<open>spectral.py\<close>\<close>

text \<open>
  Modelled from the spec: \<open>qfft.Qfft\<close> and \<open>utils.StokesNorm\<close> belong to this package
  but their modules are not among the verified sources, and \<open>spectrum.dpss\<close> is an
  external taper generator.  The specification gives their interfaces only: \<open>Qfft\<close> maps
  a quaternion array to a quaternion array, \<open>StokesNorm\<close> maps each quaternion of an
  array to a quaternion, and the taper generator maps \<open>(length, bandwidth, count)\<close> to a
  \<open>length \<times> count\<close> real array.  They are parameters of the model; \<open>dpss env N bw K k n\<close>
  is the entry \<open>[k, n]\<close> of the taper array.
\<close>

record env =
  Qfft :: "quat list \<Rightarrow> quat list"
  StokesNorm :: "quat \<Rightarrow> quat"
  dpss :: "nat \<Rightarrow> real \<Rightarrow> nat \<Rightarrow> nat \<Rightarrow> nat \<Rightarrow> real"

text \<open>
  Modelled from the spec: \<open>utils.sympSplit\<close> is not among the verified sources.  The
  specification (4.1): a quaternion \<open>a + i b + j c + k d\<close> is split into the two complex
  numbers \<open>g1 = a + i b\<close> and \<open>g2 = d + i c\<close>.
\<close>

definition sympSplit1 :: "quat \<Rightarrow> complex \<times> complex" where
  "sympSplit1 q = (Complex (qw q) (qx q), Complex (qz q) (qy q))"

definition sympSplit :: "quat list \<Rightarrow> complex list \<times> complex list" where
  "sympSplit q = (map (\<lambda>v. fst (sympSplit1 v)) q, map (\<lambda>v. snd (sympSplit1 v)) q)"

text \<open>The same split on an array whose entries may be \<open>nan\<close> (\<open>None\<close>).\<close>

definition sympSplit_nan ::
  "quat option list \<Rightarrow> complex option list \<times> complex option list" where
  "sympSplit_nan q =
     (map (map_option (\<lambda>v. fst (sympSplit1 v))) q, map (map_option (\<lambda>v. snd (sympSplit1 v))) q)"

section \<open>Program state\<close>

text \<open>
  Estimates are objects: the state holds the heap of the objects allocated so far (a
  reference is an index into it) and the log of the calls made to numeric collaborators
  and of the lines printed.
\<close>

datatype call =
    Call_fftfreq nat
  | Call_Qfft
  | Call_StokesNorm
  | Call_sympSplit
  | Call_dpss nat real nat
  | Call_print nat

record 'o state =
  heap :: "'o list"
  calls :: "call list"

definition log_call :: "call \<Rightarrow> 'o state \<Rightarrow> 'o state" where
  "log_call c s = s\<lparr>calls := calls s @ [c]\<rparr>"

text \<open>A constructor that returns hands out the reference of a fresh heap cell.\<close>

definition new_object :: "'o \<Rightarrow> 'o state \<Rightarrow> (error + nat) \<times> 'o state" where
  "new_object obj s = (Inr (length (heap s)), s\<lparr>heap := heap s @ [obj]\<rparr>)"

definition store :: "nat \<Rightarrow> 'o \<Rightarrow> 'o state \<Rightarrow> 'o state" where
  "store r obj s = s\<lparr>heap := (heap s)[r := obj]\<rparr>"

text \<open>
  The spectral term \<open>np.norm(Q) + StokesNorm(Q) * quaternion.y\<close>, element by element.
\<close>

definition spectral_term :: "env \<Rightarrow> quat \<Rightarrow> quat" where
  "spectral_term env q = qadd (qreal (qnorm q)) (qmul (StokesNorm env q) quaternion_y)"

section \<open>Class \<open>Periodogram\<close>\<close>

record periodogram =
  p_t :: "real list"
  p_signal :: "quat list"
  p_f :: "real list option"
  p_density :: "quat list"
  p_S0 :: "real list"
  p_S1 :: "real list"
  p_S2 :: "real list"
  p_S3 :: "real list"
  p_S1n :: "real list"
  p_S2n :: "real list"
  p_S3n :: "real list"
  p_Phi :: "real list"

text \<open>
  \<open>Periodogram.compute\<close>: the outcome, \<open>self\<close> as the call leaves it, and the state.
\<close>

definition Periodogram_compute ::
  "env \<Rightarrow> periodogram \<Rightarrow> 'o state \<Rightarrow> (error + unit) \<times> periodogram \<times> 'o state" where
  "Periodogram_compute env self s =
     (if length (p_t self) < 2 then (Inl IndexError, self, s)
      else
        let dt = p_t self ! 1 - p_t self ! 0;
            N = length (p_signal self);
            QFTx = Qfft env (p_signal self);
            s1 = log_call Call_Qfft s
        in if N = 0 then (Inl NonFinite, self, s1)
           else
             let s2 = log_call Call_StokesNorm s1
             in (Inr (),
                 self\<lparr>p_density := map (qscale (dt / real N)) (map (spectral_term env) QFTx)\<rparr>,
                 s2))"

text \<open>\<open>Periodogram._getStokes\<close>.\<close>

definition Periodogram_getStokes ::
  "periodogram \<Rightarrow> 'o state \<Rightarrow> (real list \<times> real list \<times> real list \<times> real list) \<times> 'o state" where
  "Periodogram_getStokes self s =
     (case sympSplit (p_density self) of
        (g1, g2) \<Rightarrow>
          let S0 = map Re g1;
              S1 = map Im g1;
              S3 = map Re g2;
              S2 = map Im g2
          in ((S0, S1, S2, S3), log_call Call_sympSplit s))"

text \<open>
  \<open>Periodogram.__init__\<close>.  The object under construction is built field by field and
  enters the heap when the constructor returns; an attribute not assigned yet is \<open>[]\<close>.
\<close>

definition Periodogram_init ::
  "env \<Rightarrow> real list \<Rightarrow> ndarray \<Rightarrow> bool \<Rightarrow> periodogram state \<Rightarrow> (error + nat) \<times> periodogram state"
  where
  "Periodogram_init env t x computeFlag s =
     (if dtype x \<noteq> ''quaternion'' then (Inl (ValueError msg_not_quaternion), s)
      else
        let N = length (quats x)
        in if length t < 2 then (Inl IndexError, s)
           else
             let dt = t ! 1 - t ! 0;
                 s1 = log_call (Call_fftfreq N) s
             in if N = 0 then (Inl ZeroDivisionError, s1)
                else
                  let self0 = \<lparr>p_t = t, p_signal = quats x,
                               p_f = (if dt = 0 then None else Some (map (\<lambda>v. v / dt) (fftfreq N))),
                               p_density = replicate N qzero,
                               p_S0 = [], p_S1 = [], p_S2 = [], p_S3 = [],
                               p_S1n = [], p_S2n = [], p_S3n = [], p_Phi = []\<rparr>
                  in case (if computeFlag then Periodogram_compute env self0 s1
                           else (Inr (), self0, s1)) of
                       (Inl e, self1, s2) \<Rightarrow> (Inl e, s2)
                     | (Inr u, self1, s2) \<Rightarrow>
                         (case Periodogram_getStokes self1 s2 of
                            ((S0, S1, S2, S3), s3) \<Rightarrow>
                              new_object (self1\<lparr>p_S0 := S0, p_S1 := S1, p_S2 := S2, p_S3 := S3,
                                              p_S1n := replicate (length S0) 0,
                                              p_S2n := replicate (length S0) 0,
                                              p_S3n := replicate (length S0) 0,
                                              p_Phi := replicate (length S0) 0\<rparr>) s3))"

text \<open>\<open>compute()\<close> called on an object of the heap.\<close>

definition Periodogram_compute_at ::
  "env \<Rightarrow> nat \<Rightarrow> periodogram state \<Rightarrow> (error + unit) \<times> periodogram state" where
  "Periodogram_compute_at env r s =
     (case Periodogram_compute env (heap s ! r) s of
        (res, self1, s1) \<Rightarrow> (res, store r self1 s1))"

text \<open>
  The tail shared by \<open>__add__\<close> and \<open>__mul__\<close>: assign the density of the object
  \<open>new\<close>, then its Stokes parameters from \<open>new._getStokes()\<close>.
\<close>

definition Periodogram_update ::
  "nat \<Rightarrow> quat list \<Rightarrow> periodogram state \<Rightarrow> (error + nat) \<times> periodogram state" where
  "Periodogram_update new d s =
     (let s1 = store new ((heap s ! new)\<lparr>p_density := d\<rparr>) s
      in (case Periodogram_getStokes (heap s1 ! new) s1 of
            ((S0, S1, S2, S3), s2) \<Rightarrow>
              (Inr new,
               store new ((heap s2 ! new)\<lparr>p_S0 := S0, p_S1 := S1, p_S2 := S2, p_S3 := S3\<rparr>) s2)))"

text \<open>\<open>Periodogram.__add__\<close>; \<open>self\<close> and \<open>other\<close> are references.\<close>

definition Periodogram_add ::
  "env \<Rightarrow> nat \<Rightarrow> nat \<Rightarrow> periodogram state \<Rightarrow> (error + nat) \<times> periodogram state" where
  "Periodogram_add env self other s =
     (case np_map2 (\<lambda>a b. a \<noteq> b) (p_t (heap s ! self)) (p_t (heap s ! other)) of
        Inl e \<Rightarrow> (Inl e, s)
      | Inr ne \<Rightarrow>
          if py_is_True (np_any ne) then (Inl (ValueError msg_time_arrays), s)
          else
            (case Periodogram_init env (p_t (heap s ! self)) (QuatArray (p_signal (heap s ! self)))
                    False s of
               (Inl e, s1) \<Rightarrow> (Inl e, s1)
             | (Inr new, s1) \<Rightarrow>
                 (case np_map2 qadd (p_density (heap s1 ! self)) (p_density (heap s1 ! other)) of
                    Inl e \<Rightarrow> (Inl e, s1)
                  | Inr d \<Rightarrow> Periodogram_update new d s1)))"

text \<open>\<open>Periodogram.__mul__\<close> and \<open>Periodogram.__rmul__\<close>.\<close>

definition Periodogram_mul ::
  "env \<Rightarrow> nat \<Rightarrow> operand \<Rightarrow> periodogram state \<Rightarrow> (error + nat) \<times> periodogram state" where
  "Periodogram_mul env self scalar s =
     (if np_size scalar > 1 then (Inl (ValueError msg_scalar_only), s)
      else
        (case Periodogram_init env (p_t (heap s ! self)) (QuatArray (p_signal (heap s ! self)))
                False s of
           (Inl e, s1) \<Rightarrow> (Inl e, s1)
         | (Inr new, s1) \<Rightarrow>
             (case np_scale scalar (p_density (heap s1 ! self)) of
                Inl e \<Rightarrow> (Inl e, s1)
              | Inr d \<Rightarrow> Periodogram_update new d s1)))"

definition Periodogram_rmul ::
  "env \<Rightarrow> nat \<Rightarrow> operand \<Rightarrow> periodogram state \<Rightarrow> (error + nat) \<times> periodogram state" where
  "Periodogram_rmul env self scalar s = Periodogram_mul env self scalar s"

section \<open>Class \<open>Multitaper\<close>\<close>

text \<open>
  A two-dimensional array of shape \<open>(N, Nmt)\<close> is the list of its \<open>N\<close> rows.  The
  averaged density and the Stokes parameters read from it hold \<open>nan\<close> (\<open>None\<close>) when
  the mean is taken over an empty taper axis.
\<close>

record multitaper =
  m_t :: "real list"
  m_signal :: "quat list"
  m_f :: "real list option"
  m_densities :: "quat list list"
  m_dpss :: "real list list"
  m_density :: "quat option list"
  m_S0 :: "real option list"
  m_S1 :: "real option list"
  m_S2 :: "real option list"
  m_S3 :: "real option list"
  m_S1n :: "real list"
  m_S2n :: "real list"
  m_S3n :: "real list"
  m_Phi :: "real list"

text \<open>\<open>np.size(a, 0)\<close> and \<open>np.size(a, 1)\<close>; every constructed array has a row.\<close>

definition size0 :: "'a list list \<Rightarrow> nat" where
  "size0 a = length a"

definition size1 :: "'a list list \<Rightarrow> nat" where
  "size1 a = (case a of [] \<Rightarrow> 0 | row # _ \<Rightarrow> length row)"

text \<open>\<open>a[:, n]\<close>, read and assigned (the assigned value is broadcast to the column).\<close>

definition column :: "nat \<Rightarrow> 'a list list \<Rightarrow> 'a list" where
  "column n a = map (\<lambda>row. row ! n) a"

definition assign_column :: "nat \<Rightarrow> 'a list \<Rightarrow> 'a list list \<Rightarrow> error + 'a list list" where
  "assign_column n col a =
     (if size1 a \<le> n then Inl IndexError
      else if length col = length a then Inr (map2 (\<lambda>row v. row[n := v]) a col)
      else if length col = 1 then Inr (map (\<lambda>row. row[n := hd col]) a)
      else Inl (ValueError msg_broadcast))"

text \<open>
  \<open>as_quat_array(np.mean(as_float_array(densities), axis=1))\<close>: the mean of each of
  the four components along a row; \<open>nan\<close> on an empty row.
\<close>

definition mean :: "real list \<Rightarrow> real" where
  "mean vs = sum_list vs / real (length vs)"

definition quat_mean :: "quat list \<Rightarrow> quat option" where
  "quat_mean row =
     (if row = [] then None
      else Some (Quat (mean (map qw row)) (mean (map qx row))
                      (mean (map qy row)) (mean (map qz row))))"

text \<open>The array \<open>tapers[N, Nmt]\<close> returned by \<open>dpss(N, bw, Nmt)\<close>.\<close>

definition taper_array :: "env \<Rightarrow> nat \<Rightarrow> real \<Rightarrow> nat \<Rightarrow> real list list" where
  "taper_array env N bw Nmt = map (\<lambda>k. map (\<lambda>n. dpss env N bw Nmt k n) [0..<Nmt]) [0..<N]"

text \<open>The body of the loop \<open>for n in range(Nmt)\<close> of \<open>Multitaper.compute\<close>.\<close>

fun taper_loop ::
  "env \<Rightarrow> real \<Rightarrow> nat list \<Rightarrow> multitaper \<Rightarrow> 'o state \<Rightarrow>
     (error + unit) \<times> multitaper \<times> 'o state" where
  "taper_loop env dt [] self s = (Inr (), self, s)"
| "taper_loop env dt (n # ns) self s =
     (case np_map2 (\<lambda>q w. qscale w q) (m_signal self) (column n (m_dpss self)) of
        Inl e \<Rightarrow> (Inl e, self, s)
      | Inr xw \<Rightarrow>
          (let QFTx = Qfft env xw;
               s1 = log_call Call_Qfft s;
               s2 = log_call Call_StokesNorm s1
           in (case assign_column n (map (qscale dt) (map (spectral_term env) QFTx))
                      (m_densities self) of
                 Inl e \<Rightarrow> (Inl e, self, s2)
               | Inr D \<Rightarrow> taper_loop env dt ns (self\<lparr>m_densities := D\<rparr>) s2)))"

text \<open>
  \<open>Multitaper.compute\<close>: the outcome, \<open>self\<close> as the call leaves it (also when it
  raises half way), and the state.
\<close>

definition Multitaper_compute ::
  "env \<Rightarrow> multitaper \<Rightarrow> real \<Rightarrow> 'o state \<Rightarrow> (error + unit) \<times> multitaper \<times> 'o state" where
  "Multitaper_compute env self bw s =
     (let N = size0 (m_dpss self);
          Nmt = size1 (m_dpss self)
      in if length (m_t self) < 2 then (Inl IndexError, self, s)
         else
           let dt = m_t self ! 1 - m_t self ! 0;
               s1 = log_call (Call_print Nmt) s;
               s2 = log_call (Call_dpss N bw Nmt) s1
           in taper_loop env dt [0..<Nmt] (self\<lparr>m_dpss := taper_array env N bw Nmt\<rparr>) s2)"

text \<open>\<open>Multitaper._getStokes\<close>.\<close>

definition Multitaper_getStokes ::
  "multitaper \<Rightarrow> 'o state \<Rightarrow>
     (real option list \<times> real option list \<times> real option list \<times> real option list) \<times> 'o state"
  where
  "Multitaper_getStokes self s =
     (case sympSplit_nan (m_density self) of
        (g1, g2) \<Rightarrow>
          let S0 = map (map_option Re) g1;
              S1 = map (map_option Im) g1;
              S3 = map (map_option Re) g2;
              S2 = map (map_option Im) g2
          in ((S0, S1, S2, S3), log_call Call_sympSplit s))"

text \<open>
  \<open>Multitaper.__init__\<close>.  \<open>np.zeros((N, Nmt))\<close> raises for a negative \<open>Nmt\<close>; the
  source has no other check of the bandwidth.
\<close>

definition Multitaper_init ::
  "env \<Rightarrow> real list \<Rightarrow> ndarray \<Rightarrow> real \<Rightarrow> bool \<Rightarrow> multitaper state \<Rightarrow>
     (error + nat) \<times> multitaper state" where
  "Multitaper_init env t x bw computeFlag s =
     (if dtype x \<noteq> ''quaternion'' then (Inl (ValueError msg_not_quaternion), s)
      else
        let N = length (quats x)
        in if length t < 2 then (Inl IndexError, s)
           else
             let dt = t ! 1 - t ! 0;
                 s1 = log_call (Call_fftfreq N) s
             in if N = 0 then (Inl ZeroDivisionError, s1)
                else
                  let Nmt = \<lfloor>2 * bw\<rfloor> - 1
                  in if Nmt < 0 then (Inl (ValueError msg_negative_dimensions), s1)
                     else
                       let self0 = \<lparr>m_t = t, m_signal = quats x,
                                    m_f = (if dt = 0 then None
                                           else Some (map (\<lambda>v. v / dt) (fftfreq N))),
                                    m_densities = replicate N (replicate (nat Nmt) qzero),
                                    m_dpss = replicate N (replicate (nat Nmt) 0),
                                    m_density = [],
                                    m_S0 = [], m_S1 = [], m_S2 = [], m_S3 = [],
                                    m_S1n = [], m_S2n = [], m_S3n = [], m_Phi = []\<rparr>
                       in case (if computeFlag then Multitaper_compute env self0 bw s1
                                else (Inr (), self0, s1)) of
                            (Inl e, self1, s2) \<Rightarrow> (Inl e, s2)
                          | (Inr u, self1, s2) \<Rightarrow>
                              (let self2 = self1\<lparr>m_density := map quat_mean (m_densities self1)\<rparr>
                               in (case Multitaper_getStokes self2 s2 of
                                     ((S0, S1, S2, S3), s3) \<Rightarrow>
                                       new_object
                                         (self2\<lparr>m_S0 := S0, m_S1 := S1, m_S2 := S2, m_S3 := S3,
                                                m_S1n := replicate (length S0) 0,
                                                m_S2n := replicate (length S0) 0,
                                                m_S3n := replicate (length S0) 0,
                                                m_Phi := replicate (length S0) 0\<rparr>) s3)))"

text \<open>\<open>compute(bw)\<close> called on an object of the heap.\<close>

definition Multitaper_compute_at ::
  "env \<Rightarrow> nat \<Rightarrow> real \<Rightarrow> multitaper state \<Rightarrow> (error + unit) \<times> multitaper state" where
  "Multitaper_compute_at env r bw s =
     (case Multitaper_compute env (heap s ! r) bw s of
        (res, self1, s1) \<Rightarrow> (res, store r self1 s1))"

text \<open>Element-wise sum and scaling of arrays whose entries may be \<open>nan\<close>.\<close>

definition qadd_nan :: "quat option \<Rightarrow> quat option \<Rightarrow> quat option" where
  "qadd_nan p q = (case (p, q) of (Some u, Some v) \<Rightarrow> Some (qadd u v) | _ \<Rightarrow> None)"

definition qscale_nan :: "real \<Rightarrow> quat option \<Rightarrow> quat option" where
  "qscale_nan c q = map_option (qscale c) q"

fun np_scale_nan :: "operand \<Rightarrow> quat option list \<Rightarrow> error + quat option list" where
  "np_scale_nan (Scalar c) d = Inr (map (qscale_nan c) d)"
| "np_scale_nan (Array cs) d = np_map2 qscale_nan cs d"

definition Multitaper_update ::
  "nat \<Rightarrow> quat option list \<Rightarrow> multitaper state \<Rightarrow> (error + nat) \<times> multitaper state" where
  "Multitaper_update new d s =
     (let s1 = store new ((heap s ! new)\<lparr>m_density := d\<rparr>) s
      in (case Multitaper_getStokes (heap s1 ! new) s1 of
            ((S0, S1, S2, S3), s2) \<Rightarrow>
              (Inr new,
               store new ((heap s2 ! new)\<lparr>m_S0 := S0, m_S1 := S1, m_S2 := S2, m_S3 := S3\<rparr>) s2)))"

text \<open>
  \<open>Multitaper.__add__\<close>, \<open>__mul__\<close> and \<open>__rmul__\<close>.  The new object is built with the
  default bandwidth \<open>bw = 2.5\<close>.
\<close>

definition Multitaper_add ::
  "env \<Rightarrow> nat \<Rightarrow> nat \<Rightarrow> multitaper state \<Rightarrow> (error + nat) \<times> multitaper state" where
  "Multitaper_add env self other s =
     (case np_map2 (\<lambda>a b. a \<noteq> b) (m_t (heap s ! self)) (m_t (heap s ! other)) of
        Inl e \<Rightarrow> (Inl e, s)
      | Inr ne \<Rightarrow>
          if py_is_True (np_any ne) then (Inl (ValueError msg_time_arrays), s)
          else
            (case Multitaper_init env (m_t (heap s ! self)) (QuatArray (m_signal (heap s ! self)))
                    (5 / 2) False s of
               (Inl e, s1) \<Rightarrow> (Inl e, s1)
             | (Inr new, s1) \<Rightarrow>
                 (case np_map2 qadd_nan (m_density (heap s1 ! self))
                         (m_density (heap s1 ! other)) of
                    Inl e \<Rightarrow> (Inl e, s1)
                  | Inr d \<Rightarrow> Multitaper_update new d s1)))"

definition Multitaper_mul ::
  "env \<Rightarrow> nat \<Rightarrow> operand \<Rightarrow> multitaper state \<Rightarrow> (error + nat) \<times> multitaper state" where
  "Multitaper_mul env self scalar s =
     (if np_size scalar > 1 then (Inl (ValueError msg_scalar_only), s)
      else
        (case Multitaper_init env (m_t (heap s ! self)) (QuatArray (m_signal (heap s ! self)))
                (5 / 2) False s of
           (Inl e, s1) \<Rightarrow> (Inl e, s1)
         | (Inr new, s1) \<Rightarrow>
             (case np_scale_nan scalar (m_density (heap s1 ! self)) of
                Inl e \<Rightarrow> (Inl e, s1)
              | Inr d \<Rightarrow> Multitaper_update new d s1)))"

definition Multitaper_rmul ::
  "env \<Rightarrow> nat \<Rightarrow> operand \<Rightarrow> multitaper state \<Rightarrow> (error + nat) \<times> multitaper state" where
  "Multitaper_rmul env self scalar s = Multitaper_mul env self scalar s"

section \<open>A sample of the collaborators\<close>

text \<open>
  Modelled from the spec: the quaternion Fourier transform of 4.2, which splits the
  input with \<open>sympSplit\<close>, applies the discrete Fourier transform to each of the two
  complex arrays and recombines them with the inverse of the split.
\<close>

definition dft :: "complex list \<Rightarrow> complex list" where
  "dft g =
     map (\<lambda>k. \<Sum>n\<leftarrow>[0..<length g].
                 g ! n * cis (- (2 * pi * real k * real n / real (length g))))
         [0..<length g]"

definition sympSynth :: "complex \<Rightarrow> complex \<Rightarrow> quat" where
  "sympSynth g1 g2 = Quat (Re g1) (Im g1) (Im g2) (Re g2)"

definition Qfft_spec :: "quat list \<Rightarrow> quat list" where
  "Qfft_spec x = (case sympSplit x of (g1, g2) \<Rightarrow> map2 sympSynth (dft g1) (dft g2))"

text \<open>
  The theorems below hold for every choice of the collaborators.  To run the model on
  concrete inputs, \<open>sample_env\<close> fixes one: the transform of 4.2, a purely imaginary
  \<open>StokesNorm\<close> whose product with \<open>j\<close> is purely imaginary too, and a taper array
  whose first taper is constant.
\<close>

definition sample_env :: env where
  "sample_env =
     \<lparr>Qfft = Qfft_spec,
      StokesNorm = (\<lambda>q. Quat 0 (2 * (qw q * qx q + qy q * qz q)) 0
                           (2 * (qw q * qz q - qx q * qy q))),
      dpss = (\<lambda>N bw K k n. real (Suc k) ^ n)\<rparr>"

definition init_state :: "'o state" where
  "init_state = \<lparr>heap = [], calls = []\<rparr>"

section \<open>The specification's formulas and the objects the constructors build\<close>

text \<open>
  The density formulas in the words of the specification (4.3 step 4 and 4.4 step 4):
  \<open>density[k] = (dt/N) (norm(Q[k]) + StokesNorm(Q[k]) j)\<close> with \<open>Q = QFT(x)\<close>, and for a
  taper \<open>densities[:, n] = dt (norm(Qn) + StokesNorm(Qn) j)\<close> with
  \<open>Qn = QFT(x \<odot> taper)\<close>.
\<close>

definition spec_periodogram_density :: "env \<Rightarrow> real \<Rightarrow> quat list \<Rightarrow> quat list" where
  "spec_periodogram_density env dt x =
     map (\<lambda>Qk. qscale (dt / real (length x))
                  (qadd (qreal (qnorm Qk)) (qmul (StokesNorm env Qk) quaternion_y)))
         (Qfft env x)"

definition spec_taper_density :: "env \<Rightarrow> real \<Rightarrow> quat list \<Rightarrow> real list \<Rightarrow> quat list" where
  "spec_taper_density env dt x taper =
     map (\<lambda>Qk. qscale dt (qadd (qreal (qnorm Qk)) (qmul (StokesNorm env Qk) quaternion_y)))
         (Qfft env (map2 (\<lambda>q w. qscale w q) x taper))"

text \<open>The frequency axis both constructors store.\<close>

definition frequency_axis :: "real list \<Rightarrow> nat \<Rightarrow> real list option" where
  "frequency_axis t N =
     (if t ! 1 - t ! 0 = 0 then None
      else Some (map (\<lambda>v. v / (t ! 1 - t ! 0)) (fftfreq N)))"

text \<open>
  The \<open>Periodogram\<close> object with time axis \<open>t\<close>, signal \<open>x\<close> and density \<open>d\<close>, its
  Stokes parameters read from \<open>d\<close> and its normalised fields zero (\<open>zeros_like(S0)\<close>).
\<close>

definition periodogram_of :: "real list \<Rightarrow> quat list \<Rightarrow> quat list \<Rightarrow> periodogram" where
  "periodogram_of t x d =
     \<lparr>p_t = t, p_signal = x, p_f = frequency_axis t (length x), p_density = d,
      p_S0 = map qw d, p_S1 = map qx d, p_S2 = map qy d, p_S3 = map qz d,
      p_S1n = replicate (length d) 0, p_S2n = replicate (length d) 0,
      p_S3n = replicate (length d) 0, p_Phi = replicate (length d) 0\<rparr>"

text \<open>
  The \<open>Multitaper\<close> object with per-taper densities \<open>D\<close>, taper array \<open>W\<close> and
  averaged density \<open>d\<close>.
\<close>

definition multitaper_of ::
  "real list \<Rightarrow> quat list \<Rightarrow> quat list list \<Rightarrow> real list list \<Rightarrow> quat option list \<Rightarrow> multitaper"
  where
  "multitaper_of t x D W d =
     \<lparr>m_t = t, m_signal = x, m_f = frequency_axis t (length x),
      m_densities = D, m_dpss = W, m_density = d,
      m_S0 = map (map_option qw) d, m_S1 = map (map_option qx) d,
      m_S2 = map (map_option qy) d, m_S3 = map (map_option qz) d,
      m_S1n = replicate (length d) 0, m_S2n = replicate (length d) 0,
      m_S3n = replicate (length d) 0, m_Phi = replicate (length d) 0\<rparr>"

text \<open>The number the operand of a scalar multiplication stands for.\<close>

fun scalar_value :: "operand \<Rightarrow> real" where
  "scalar_value (Scalar c) = c"
| "scalar_value (Array cs) = hd cs"

section \<open>Estimates reachable through the public operations\<close>

text \<open>
  The contract on \<open>StokesNorm\<close> under which \<open>S0\<close> is the squared-magnitude term alone:
  the product \<open>StokesNorm(q) j\<close> has no real part.
\<close>

definition stokes_contract :: "env \<Rightarrow> bool" where
  "stokes_contract env = (\<forall>q. qw (qmul (StokesNorm env q) quaternion_y) = 0)"

text \<open>The contract on \<open>Qfft\<close>: the output has the length of the input (4.2).\<close>

definition qfft_contract :: "env \<Rightarrow> bool" where
  "qfft_contract env = (\<forall>y. length (Qfft env y) = length y)"

definition nonneg_operand :: "operand \<Rightarrow> bool" where
  "nonneg_operand c = (case c of Scalar v \<Rightarrow> 0 \<le> v | Array vs \<Rightarrow> list_all (\<lambda>v. 0 \<le> v) vs)"

text \<open>
  The states reached from the empty heap by constructing periodograms on a
  non-decreasing time axis, adding two of them, and multiplying one by a non-negative
  operand.
\<close>

inductive reachable :: "env \<Rightarrow> periodogram state \<Rightarrow> bool" for env :: env where
  start: "reachable env init_state"
| construct:
    "reachable env s \<Longrightarrow> t ! 0 \<le> t ! 1 \<Longrightarrow> Periodogram_init env t x computeFlag s = (res, s')
       \<Longrightarrow> reachable env s'"
| add:
    "reachable env s \<Longrightarrow> a < length (heap s) \<Longrightarrow> b < length (heap s)
       \<Longrightarrow> Periodogram_add env a b s = (res, s') \<Longrightarrow> reachable env s'"
| mul:
    "reachable env s \<Longrightarrow> a < length (heap s) \<Longrightarrow> nonneg_operand c
       \<Longrightarrow> Periodogram_mul env a c s = (res, s') \<Longrightarrow> reachable env s'"

text \<open>
  The object \<open>__add__\<close> and \<open>__mul__\<close> return: built with \<open>computeFlag=False\<close> from
  the time axis and the signal of \<open>self\<close>, then given the density \<open>d\<close> and the Stokes
  parameters read from \<open>d\<close>.
\<close>

definition derived_periodogram :: "real list \<Rightarrow> quat list \<Rightarrow> quat list \<Rightarrow> periodogram" where
  "derived_periodogram t x d =
     (periodogram_of t x (replicate (length x) qzero))
       \<lparr>p_density := d, p_S0 := map qw d, p_S1 := map qx d, p_S2 := map qy d,
        p_S3 := map qz d\<rparr>"

definition derived_multitaper :: "real list \<Rightarrow> quat list \<Rightarrow> quat option list \<Rightarrow> multitaper" where
  "derived_multitaper t x d =
     (multitaper_of t x (replicate (length x) (replicate 4 qzero))
        (replicate (length x) (replicate 4 0)) (replicate (length x) (Some qzero)))
       \<lparr>m_density := d, m_S0 := map (map_option qw) d, m_S1 := map (map_option qx) d,
        m_S2 := map (map_option qy) d, m_S3 := map (map_option qz) d\<rparr>"

text \<open>
  What an operator leaves behind, whatever its outcome \<open>out\<close> from the state \<open>s\<close>: the
  objects of the old heap as they were, and, when it returns a reference, the first
  reference past the old heap, which has grown by one object.
\<close>

definition fresh_result :: "'o state \<Rightarrow> (error + nat) \<times> 'o state \<Rightarrow> bool" where
  "fresh_result s out =
     (take (length (heap s)) (heap (snd out)) = heap s
      \<and> (case fst out of
            Inl e \<Rightarrow> True
          | Inr r \<Rightarrow> r = length (heap s) \<and> length (heap (snd out)) = Suc r))"

section \<open>Sample inputs\<close>

definition sample_x :: "quat list" where
  "sample_x = [Quat 1 2 0 0, Quat 0 0 0 0]"

text \<open>
  One periodogram of the sample signal on the time axis \<open>[0, 1]\<close>, then a second one
  on \<open>[0, 2]\<close>; and two multitaper estimates likewise, built with
  \<open>computeFlag=False\<close>.
\<close>

definition one_periodogram :: "periodogram state" where
  "one_periodogram =
     snd (Periodogram_init sample_env [0, 1] (QuatArray sample_x) True init_state)"

definition two_periodograms :: "periodogram state" where
  "two_periodograms =
     snd (Periodogram_init sample_env [0, 2] (QuatArray sample_x) True one_periodogram)"

definition one_multitaper :: "multitaper state" where
  "one_multitaper =
     snd (Multitaper_init sample_env [0, 1] (QuatArray sample_x) (5 / 2) False init_state)"

definition two_multitapers :: "multitaper state" where
  "two_multitapers =
     snd (Multitaper_init sample_env [0, 2] (QuatArray sample_x) (5 / 2) False one_multitaper)"

section \<open>Basic facts\<close>

lemma upt2: "[0..<2] = [0, Suc 0]"
  by (simp add: upt_rec numeral_2_eq_2)

lemma cis_minus_pi: "cis (- pi) = - 1"
  by (simp add: complex_eq_iff)

lemma dft2: "dft [a, b] = [a + b, a - b]"
  by (simp add: dft_def upt2 cis_minus_pi)

lemma Qfft_spec2: "Qfft_spec [p, q] = [qadd p q, qadd p (qscale (- 1) q)]"
  by (simp add: Qfft_spec_def sympSplit_def sympSplit1_def dft2 sympSynth_def qadd_def
      qscale_def)

lemma length_dft: "length (dft g) = length g"
  by (simp add: dft_def)

lemma length_Qfft_spec: "length (Qfft_spec x) = length x"
  by (simp add: Qfft_spec_def sympSplit_def length_dft)

lemma py_is_True_np_any: "py_is_True (np_any bs) = False"
  by (simp add: py_is_True_def np_any_def)

lemma np_map2_same: "length xs = length ys \<Longrightarrow> np_map2 g xs ys = Inr (map2 g xs ys)"
  by (simp add: np_map2_def)

section \<open>Facts about \<open>Periodogram\<close>\<close>

lemma Periodogram_getStokes_eq:
  "Periodogram_getStokes self s =
     ((map qw (p_density self), map qx (p_density self), map qy (p_density self),
       map qz (p_density self)), log_call Call_sympSplit s)"
  by (simp add: Periodogram_getStokes_def sympSplit_def sympSplit1_def)

lemma Periodogram_compute_ok:
  "2 \<le> length (p_t self) \<Longrightarrow> p_signal self \<noteq> [] \<Longrightarrow>
   Periodogram_compute env self s =
     (Inr (),
      self\<lparr>p_density :=
             spec_periodogram_density env (p_t self ! 1 - p_t self ! 0) (p_signal self)\<rparr>,
      log_call Call_StokesNorm (log_call Call_Qfft s))"
  by (simp add: Periodogram_compute_def spec_periodogram_density_def spectral_term_def Let_def)

lemma Periodogram_init_ok:
  "2 \<le> length t \<Longrightarrow> x \<noteq> [] \<Longrightarrow>
   Periodogram_init env t (QuatArray x) cf s =
     (Inr (length (heap s)),
      s\<lparr>heap := heap s @ [periodogram_of t x
                 (if cf then spec_periodogram_density env (t ! 1 - t ! 0) x
                  else replicate (length x) qzero)],
        calls := calls s @ Call_fftfreq (length x) #
                 (if cf then [Call_Qfft, Call_StokesNorm] else []) @ [Call_sympSplit]\<rparr>)"
  by (simp add: Periodogram_init_def Periodogram_compute_ok Periodogram_getStokes_eq Let_def
      new_object_def log_call_def periodogram_of_def frequency_axis_def
      spec_periodogram_density_def)

lemma Periodogram_init_Inr:
  "Periodogram_init env t x cf s = (Inr r, s') \<Longrightarrow>
     2 \<le> length t \<and> x = QuatArray (quats x) \<and> quats x \<noteq> []"
  by (cases x) (auto simp: Periodogram_init_def Let_def split: if_splits)

lemma Periodogram_init_heap:
  "Periodogram_init env t x cf s = (res, s') \<Longrightarrow>
     (case res of Inl e \<Rightarrow> heap s' = heap s
      | Inr r \<Rightarrow> r = length (heap s) \<and> (\<exists>obj. heap s' = heap s @ [obj]))"
  by (cases x)
     (auto simp: Periodogram_init_def Let_def log_call_def Periodogram_compute_def
        Periodogram_getStokes_eq new_object_def split: if_splits sum.splits)

lemma Periodogram_update_eq:
  "new < length (heap s) \<Longrightarrow>
   Periodogram_update new d s =
     (Inr new,
      s\<lparr>heap := (heap s)[new := (heap s ! new)\<lparr>p_density := d, p_S0 := map qw d,
                                                 p_S1 := map qx d, p_S2 := map qy d,
                                                 p_S3 := map qz d\<rparr>],
        calls := calls s @ [Call_sympSplit]\<rparr>)"
  by (simp add: Periodogram_update_def Periodogram_getStokes_eq store_def log_call_def Let_def)

lemma Periodogram_update_heap:
  "fst (Periodogram_update new d s) = Inr new \<and>
   (\<exists>obj. heap (snd (Periodogram_update new d s)) = (heap s)[new := obj])"
  by (simp add: Periodogram_update_def Periodogram_getStokes_eq store_def log_call_def Let_def)
     blast

lemma Periodogram_add_frame:
  assumes "Periodogram_add env a b s = (res, s')"
  shows "take (length (heap s)) (heap s') = heap s \<and>
         (\<forall>r. res = Inr r \<longrightarrow> r = length (heap s) \<and> length (heap s') = Suc (length (heap s)))"
proof (cases "np_map2 (\<lambda>a b. a \<noteq> b) (p_t (heap s ! a)) (p_t (heap s ! b))")
  case (Inl e)
  with assms show ?thesis by (auto simp: Periodogram_add_def)
next
  case (Inr ne)
  obtain r1 s1 where i:
    "Periodogram_init env (p_t (heap s ! a)) (QuatArray (p_signal (heap s ! a))) False s = (r1, s1)"
    by (cases "Periodogram_init env (p_t (heap s ! a)) (QuatArray (p_signal (heap s ! a))) False s")
  note h = Periodogram_init_heap[OF i]
  show ?thesis
  proof (cases r1)
    case (Inl e)
    with assms Inr i h show ?thesis by (auto simp: Periodogram_add_def py_is_True_np_any)
  next
    case new: (Inr new)
    with h obtain obj where o: "new = length (heap s)" "heap s1 = heap s @ [obj]" by auto
    show ?thesis
    proof (cases "np_map2 qadd (p_density (heap s1 ! a)) (p_density (heap s1 ! b))")
      case (Inl e)
      with assms Inr i new o show ?thesis by (auto simp: Periodogram_add_def py_is_True_np_any)
    next
      case d: (Inr d)
      from assms Inr i new d have "Periodogram_update new d s1 = (res, s')"
        by (simp add: Periodogram_add_def py_is_True_np_any)
      with Periodogram_update_heap[of new d s1] o show ?thesis by auto
    qed
  qed
qed

lemma np_scale_one:
  "np_size c = 1 \<Longrightarrow> np_scale c d = Inr (map (qscale (scalar_value c)) d)"
proof (cases c)
  case (Scalar v)
  then show ?thesis by simp
next
  case (Array cs)
  assume "np_size c = 1"
  with Array obtain v where cs: "cs = [v]" by (cases cs) auto
  show ?thesis
  proof (cases "length d = 1")
    case True
    then obtain q where "d = [q]" by (cases d) auto
    with Array cs show ?thesis by (simp add: np_map2_def)
  next
    case False
    with Array cs show ?thesis by (simp add: np_map2_def)
  qed
qed

lemma Periodogram_mul_ok:
  assumes "a < length (heap s)" "2 \<le> length (p_t (heap s ! a))" "p_signal (heap s ! a) \<noteq> []"
    and "np_size c = 1"
  shows "Periodogram_mul env a c s =
     (Inr (length (heap s)),
      s\<lparr>heap := heap s @ [derived_periodogram (p_t (heap s ! a)) (p_signal (heap s ! a))
                          (map (qscale (scalar_value c)) (p_density (heap s ! a)))],
        calls := calls s @ [Call_fftfreq (length (p_signal (heap s ! a))), Call_sympSplit,
                            Call_sympSplit]\<rparr>)"
  using assms
  by (simp add: Periodogram_mul_def Periodogram_init_ok Periodogram_update_eq nth_append
      np_scale_one derived_periodogram_def)

lemma Periodogram_add_ok:
  assumes "a < length (heap s)" "b < length (heap s)"
    and "2 \<le> length (p_t (heap s ! a))" "p_signal (heap s ! a) \<noteq> []"
    and "np_map2 (\<lambda>u v. u \<noteq> v) (p_t (heap s ! a)) (p_t (heap s ! b)) = Inr ne"
    and "np_map2 qadd (p_density (heap s ! a)) (p_density (heap s ! b)) = Inr d"
  shows "Periodogram_add env a b s =
     (Inr (length (heap s)),
      s\<lparr>heap := heap s @ [derived_periodogram (p_t (heap s ! a)) (p_signal (heap s ! a)) d],
        calls := calls s @ [Call_fftfreq (length (p_signal (heap s ! a))), Call_sympSplit,
                            Call_sympSplit]\<rparr>)"
  using assms
  by (simp add: Periodogram_add_def Periodogram_init_ok Periodogram_update_eq nth_append
      py_is_True_np_any derived_periodogram_def)

lemma Periodogram_mul_frame:
  assumes "Periodogram_mul env a c s = (res, s')"
  shows "take (length (heap s)) (heap s') = heap s \<and>
         (\<forall>r. res = Inr r \<longrightarrow> r = length (heap s) \<and> length (heap s') = Suc (length (heap s)))"
proof (cases "1 < np_size c")
  case True
  with assms show ?thesis by (auto simp: Periodogram_mul_def)
next
  case False
  obtain r1 s1 where i:
    "Periodogram_init env (p_t (heap s ! a)) (QuatArray (p_signal (heap s ! a))) False s = (r1, s1)"
    by (cases "Periodogram_init env (p_t (heap s ! a)) (QuatArray (p_signal (heap s ! a))) False s")
  note h = Periodogram_init_heap[OF i]
  show ?thesis
  proof (cases r1)
    case (Inl e)
    with assms False i h show ?thesis by (auto simp: Periodogram_mul_def)
  next
    case new: (Inr new)
    with h obtain obj where o: "new = length (heap s)" "heap s1 = heap s @ [obj]" by auto
    show ?thesis
    proof (cases "np_scale c (p_density (heap s1 ! a))")
      case (Inl e)
      with assms False i new o show ?thesis by (auto simp: Periodogram_mul_def)
    next
      case d: (Inr d)
      from assms False i new d have "Periodogram_update new d s1 = (res, s')"
        by (simp add: Periodogram_mul_def)
      with Periodogram_update_heap[of new d s1] o show ?thesis by auto
    qed
  qed
qed

lemma qadd_self: "qadd q q = qscale 2 q"
  by (simp add: qadd_def qscale_def)

lemma map2_qadd_self: "map2 qadd d d = map (qscale 2) d"
  by (simp add: zip_same_conv_map qadd_self)

section \<open>Facts about \<open>Multitaper\<close>\<close>

lemma Multitaper_getStokes_eq:
  "Multitaper_getStokes self s =
     ((map (map_option qw) (m_density self), map (map_option qx) (m_density self),
       map (map_option qy) (m_density self), map (map_option qz) (m_density self)),
      log_call Call_sympSplit s)"
  by (simp add: Multitaper_getStokes_def sympSplit_nan_def sympSplit1_def option.map_comp
      comp_def)

lemma taper_loop_frame:
  "taper_loop env dt ns self s = (res, self', s') \<Longrightarrow>
     heap s' = heap s \<and> self' = self\<lparr>m_densities := m_densities self'\<rparr>"
proof (induction ns arbitrary: self s)
  case Nil
  then show ?case by auto
next
  case (Cons n ns)
  show ?case
  proof (cases "np_map2 (\<lambda>q w. qscale w q) (m_signal self) (column n (m_dpss self))")
    case (Inl e)
    with Cons.prems show ?thesis by auto
  next
    case xw: (Inr xw)
    show ?thesis
    proof (cases "assign_column n (map (qscale dt) (map (spectral_term env) (Qfft env xw)))
                    (m_densities self)")
      case (Inl e)
      with Cons.prems xw show ?thesis by (auto simp: Let_def log_call_def)
    next
      case (Inr D)
      with Cons.prems xw
      have "taper_loop env dt ns (self\<lparr>m_densities := D\<rparr>)
              (log_call Call_StokesNorm (log_call Call_Qfft s)) = (res, self', s')"
        by (simp add: Let_def)
      from Cons.IH[OF this] show ?thesis by (auto simp: log_call_def)
    qed
  qed
qed

lemma Multitaper_compute_frame:
  "Multitaper_compute env self bw s = (res, self', s') \<Longrightarrow>
     heap s' = heap s \<and>
     self' = self\<lparr>m_densities := m_densities self', m_dpss := m_dpss self'\<rparr>"
  by (cases self; cases self')
     (auto simp: Multitaper_compute_def Let_def log_call_def split: if_splits
        dest!: taper_loop_frame)

lemma mean_zeros: "mean (replicate K 0) = 0"
  by (simp add: mean_def sum_list_replicate)

lemma quat_mean_zeros: "quat_mean (replicate K qzero) = (if K = 0 then None else Some qzero)"
  by (simp add: quat_mean_def qzero_def mean_zeros)

lemma Multitaper_init_deferred:
  assumes "2 \<le> length t" "x \<noteq> []" and K: "\<lfloor>2 * bw\<rfloor> - 1 = int K"
  shows "Multitaper_init env t (QuatArray x) bw False s =
     (Inr (length (heap s)),
      s\<lparr>heap := heap s @ [multitaper_of t x
                  (replicate (length x) (replicate K qzero))
                  (replicate (length x) (replicate K 0))
                  (replicate (length x) (if K = 0 then None else Some qzero))],
        calls := calls s @ [Call_fftfreq (length x), Call_sympSplit]\<rparr>)"
  unfolding Multitaper_init_def Let_def K
  using assms(1,2)
  by (simp add: Multitaper_getStokes_eq
      new_object_def log_call_def multitaper_of_def frequency_axis_def quat_mean_zeros)

lemma default_bandwidth: "\<lfloor>2 * (5 / 2 :: real)\<rfloor> - 1 = int 4"
  by simp

lemma Multitaper_init_heap:
  "Multitaper_init env t x bw cf s = (res, s') \<Longrightarrow>
     (case res of Inl e \<Rightarrow> heap s' = heap s
      | Inr r \<Rightarrow> r = length (heap s) \<and> (\<exists>obj. heap s' = heap s @ [obj]))"
  by (cases x)
     (auto simp: Multitaper_init_def Let_def log_call_def Multitaper_getStokes_eq new_object_def
       split: if_splits sum.splits prod.splits dest!: Multitaper_compute_frame)

lemma Multitaper_update_eq:
  "new < length (heap s) \<Longrightarrow>
   Multitaper_update new d s =
     (Inr new,
      s\<lparr>heap := (heap s)[new := (heap s ! new)\<lparr>m_density := d, m_S0 := map (map_option qw) d,
                                                 m_S1 := map (map_option qx) d,
                                                 m_S2 := map (map_option qy) d,
                                                 m_S3 := map (map_option qz) d\<rparr>],
        calls := calls s @ [Call_sympSplit]\<rparr>)"
  by (simp add: Multitaper_update_def Multitaper_getStokes_eq store_def log_call_def Let_def)

lemma Multitaper_update_heap:
  "fst (Multitaper_update new d s) = Inr new \<and>
   (\<exists>obj. heap (snd (Multitaper_update new d s)) = (heap s)[new := obj])"
  by (simp add: Multitaper_update_def Multitaper_getStokes_eq store_def log_call_def Let_def)
     blast

lemma np_scale_nan_one:
  "np_size c = 1 \<Longrightarrow> np_scale_nan c d = Inr (map (qscale_nan (scalar_value c)) d)"
proof (cases c)
  case (Scalar v)
  then show ?thesis by simp
next
  case (Array cs)
  assume "np_size c = 1"
  with Array obtain v where cs: "cs = [v]" by (cases cs) auto
  show ?thesis
  proof (cases "length d = 1")
    case True
    then obtain q where "d = [q]" by (cases d) auto
    with Array cs show ?thesis by (simp add: np_map2_def)
  next
    case False
    with Array cs show ?thesis by (simp add: np_map2_def)
  qed
qed

lemma Multitaper_mul_ok:
  assumes "a < length (heap s)" "2 \<le> length (m_t (heap s ! a))" "m_signal (heap s ! a) \<noteq> []"
    and "np_size c = 1"
  shows "Multitaper_mul env a c s =
     (Inr (length (heap s)),
      s\<lparr>heap := heap s @ [derived_multitaper (m_t (heap s ! a)) (m_signal (heap s ! a))
                          (map (qscale_nan (scalar_value c)) (m_density (heap s ! a)))],
        calls := calls s @ [Call_fftfreq (length (m_signal (heap s ! a))), Call_sympSplit,
                            Call_sympSplit]\<rparr>)"
  using assms
  by (simp add: Multitaper_mul_def Multitaper_init_deferred[OF _ _ default_bandwidth]
      Multitaper_update_eq nth_append np_scale_nan_one derived_multitaper_def)

lemma Multitaper_add_ok:
  assumes "a < length (heap s)" "b < length (heap s)"
    and "2 \<le> length (m_t (heap s ! a))" "m_signal (heap s ! a) \<noteq> []"
    and "np_map2 (\<lambda>u v. u \<noteq> v) (m_t (heap s ! a)) (m_t (heap s ! b)) = Inr ne"
    and "np_map2 qadd_nan (m_density (heap s ! a)) (m_density (heap s ! b)) = Inr d"
  shows "Multitaper_add env a b s =
     (Inr (length (heap s)),
      s\<lparr>heap := heap s @ [derived_multitaper (m_t (heap s ! a)) (m_signal (heap s ! a)) d],
        calls := calls s @ [Call_fftfreq (length (m_signal (heap s ! a))), Call_sympSplit,
                            Call_sympSplit]\<rparr>)"
  using assms
  by (simp add: Multitaper_add_def Multitaper_init_deferred[OF _ _ default_bandwidth]
      Multitaper_update_eq nth_append py_is_True_np_any derived_multitaper_def)

lemma Multitaper_add_frame:
  assumes "Multitaper_add env a b s = (res, s')"
  shows "take (length (heap s)) (heap s') = heap s \<and>
         (\<forall>r. res = Inr r \<longrightarrow> r = length (heap s) \<and> length (heap s') = Suc (length (heap s)))"
proof (cases "np_map2 (\<lambda>a b. a \<noteq> b) (m_t (heap s ! a)) (m_t (heap s ! b))")
  case (Inl e)
  with assms show ?thesis by (auto simp: Multitaper_add_def)
next
  case (Inr ne)
  obtain r1 s1 where i:
    "Multitaper_init env (m_t (heap s ! a)) (QuatArray (m_signal (heap s ! a))) (5 / 2) False s
       = (r1, s1)"
    by (cases "Multitaper_init env (m_t (heap s ! a)) (QuatArray (m_signal (heap s ! a)))
                 (5 / 2) False s")
  note h = Multitaper_init_heap[OF i]
  show ?thesis
  proof (cases r1)
    case (Inl e)
    with assms Inr i h show ?thesis by (auto simp: Multitaper_add_def py_is_True_np_any)
  next
    case new: (Inr new)
    with h obtain obj where o: "new = length (heap s)" "heap s1 = heap s @ [obj]" by auto
    show ?thesis
    proof (cases "np_map2 qadd_nan (m_density (heap s1 ! a)) (m_density (heap s1 ! b))")
      case (Inl e)
      with assms Inr i new o show ?thesis by (auto simp: Multitaper_add_def py_is_True_np_any)
    next
      case d: (Inr d)
      from assms Inr i new d have "Multitaper_update new d s1 = (res, s')"
        by (simp add: Multitaper_add_def py_is_True_np_any)
      with Multitaper_update_heap[of new d s1] o show ?thesis by auto
    qed
  qed
qed

lemma Multitaper_mul_frame:
  assumes "Multitaper_mul env a c s = (res, s')"
  shows "take (length (heap s)) (heap s') = heap s \<and>
         (\<forall>r. res = Inr r \<longrightarrow> r = length (heap s) \<and> length (heap s') = Suc (length (heap s)))"
proof (cases "1 < np_size c")
  case True
  with assms show ?thesis by (auto simp: Multitaper_mul_def)
next
  case False
  obtain r1 s1 where i:
    "Multitaper_init env (m_t (heap s ! a)) (QuatArray (m_signal (heap s ! a))) (5 / 2) False s
       = (r1, s1)"
    by (cases "Multitaper_init env (m_t (heap s ! a)) (QuatArray (m_signal (heap s ! a)))
                 (5 / 2) False s")
  note h = Multitaper_init_heap[OF i]
  show ?thesis
  proof (cases r1)
    case (Inl e)
    with assms False i h show ?thesis by (auto simp: Multitaper_mul_def)
  next
    case new: (Inr new)
    with h obtain obj where o: "new = length (heap s)" "heap s1 = heap s @ [obj]" by auto
    show ?thesis
    proof (cases "np_scale_nan c (m_density (heap s1 ! a))")
      case (Inl e)
      with assms False i new o show ?thesis by (auto simp: Multitaper_mul_def)
    next
      case d: (Inr d)
      from assms False i new d have "Multitaper_update new d s1 = (res, s')"
        by (simp add: Multitaper_mul_def)
      with Multitaper_update_heap[of new d s1] o show ?thesis by auto
    qed
  qed
qed

section \<open>The sample estimates\<close>

lemma length_spec_periodogram_density:
  "length (spec_periodogram_density env dt x) = length (Qfft env x)"
  by (simp add: spec_periodogram_density_def)

lemma Qfft_sample: "Qfft sample_env = Qfft_spec"
  by (simp add: sample_env_def)

lemma one_periodogram_eq:
  "one_periodogram =
     \<lparr>heap = [periodogram_of [0, 1] sample_x (spec_periodogram_density sample_env 1 sample_x)],
      calls = [Call_fftfreq 2, Call_Qfft, Call_StokesNorm, Call_sympSplit]\<rparr>"
  by (simp add: one_periodogram_def Periodogram_init_ok sample_x_def init_state_def)

lemma two_periodograms_eq:
  "two_periodograms =
     \<lparr>heap = [periodogram_of [0, 1] sample_x (spec_periodogram_density sample_env 1 sample_x),
              periodogram_of [0, 2] sample_x (spec_periodogram_density sample_env 2 sample_x)],
      calls = [Call_fftfreq 2, Call_Qfft, Call_StokesNorm, Call_sympSplit,
               Call_fftfreq 2, Call_Qfft, Call_StokesNorm, Call_sympSplit]\<rparr>"
  by (simp add: two_periodograms_def one_periodogram_eq Periodogram_init_ok sample_x_def)

lemma one_multitaper_eq:
  "one_multitaper =
     \<lparr>heap = [multitaper_of [0, 1] sample_x (replicate 2 (replicate 4 qzero))
                (replicate 2 (replicate 4 0)) (replicate 2 (Some qzero))],
      calls = [Call_fftfreq 2, Call_sympSplit]\<rparr>"
  by (simp add: one_multitaper_def Multitaper_init_deferred[OF _ _ default_bandwidth]
      sample_x_def init_state_def numeral_2_eq_2)

lemma two_multitapers_eq:
  "two_multitapers =
     \<lparr>heap = [multitaper_of [0, 1] sample_x (replicate 2 (replicate 4 qzero))
                (replicate 2 (replicate 4 0)) (replicate 2 (Some qzero)),
              multitaper_of [0, 2] sample_x (replicate 2 (replicate 4 qzero))
                (replicate 2 (replicate 4 0)) (replicate 2 (Some qzero))],
      calls = [Call_fftfreq 2, Call_sympSplit, Call_fftfreq 2, Call_sympSplit]\<rparr>"
  by (simp add: two_multitapers_def one_multitaper_eq
      Multitaper_init_deferred[OF _ _ default_bandwidth] sample_x_def numeral_2_eq_2)

lemma add_two_periodograms:
  "Periodogram_add sample_env 0 1 two_periodograms =
     (Inr 2,
      two_periodograms
        \<lparr>heap := heap two_periodograms @
           [derived_periodogram [0, 1] sample_x
              (map2 qadd (spec_periodogram_density sample_env 1 sample_x)
                 (spec_periodogram_density sample_env 2 sample_x))],
         calls := calls two_periodograms @ [Call_fftfreq 2, Call_sympSplit, Call_sympSplit]\<rparr>)"
  using Periodogram_add_ok[of 0 two_periodograms 1 "[False, True]"
      "map2 qadd (spec_periodogram_density sample_env 1 sample_x)
                 (spec_periodogram_density sample_env 2 sample_x)" sample_env]
  by (simp add: two_periodograms_eq periodogram_of_def np_map2_same
      length_spec_periodogram_density Qfft_sample length_Qfft_spec sample_x_def)

lemma add_two_multitapers:
  "Multitaper_add sample_env 0 1 two_multitapers =
     (Inr 2,
      two_multitapers
        \<lparr>heap := heap two_multitapers @
           [derived_multitaper [0, 1] sample_x (replicate 2 (Some qzero))],
         calls := calls two_multitapers @ [Call_fftfreq 2, Call_sympSplit, Call_sympSplit]\<rparr>)"
  using Multitaper_add_ok[of 0 two_multitapers 1 "[False, True]"
      "replicate 2 (Some qzero)" sample_env]
  by (simp add: two_multitapers_eq multitaper_of_def np_map2_same sample_x_def qadd_nan_def
      qadd_def qzero_def numeral_2_eq_2)

section \<open>The axis test of \<open>__add__\<close>\<close>

lemma np_map2_error: "np_map2 g xs ys = Inl e \<Longrightarrow> e = ValueError msg_broadcast"
  by (auto simp: np_map2_def split: if_splits)

lemma messages_differ:
  "msg_broadcast \<noteq> msg_time_arrays" "msg_not_quaternion \<noteq> msg_time_arrays"
  "msg_negative_dimensions \<noteq> msg_time_arrays"
  by (simp_all add: msg_broadcast_def msg_time_arrays_def msg_not_quaternion_def
      msg_negative_dimensions_def)

lemma Periodogram_init_deferred_error:
  "Periodogram_init env t x False s = (Inl e, s') \<Longrightarrow> e \<noteq> ValueError msg_time_arrays"
  by (cases x)
     (auto simp: Periodogram_init_def Let_def Periodogram_getStokes_eq new_object_def
        messages_differ split: if_splits)

lemma Multitaper_init_deferred_error:
  "Multitaper_init env t x bw False s = (Inl e, s') \<Longrightarrow> e \<noteq> ValueError msg_time_arrays"
  by (cases x)
     (auto simp: Multitaper_init_def Let_def Multitaper_getStokes_eq new_object_def
        messages_differ split: if_splits)

lemma Periodogram_add_never_raises_axis_error:
  "fst (Periodogram_add env a b s) \<noteq> Inl (ValueError msg_time_arrays)"
  using Periodogram_update_heap
  by (auto simp: Periodogram_add_def py_is_True_np_any messages_differ
      split: sum.splits prod.splits
      dest!: np_map2_error Periodogram_init_deferred_error)

lemma Multitaper_add_never_raises_axis_error:
  "fst (Multitaper_add env a b s) \<noteq> Inl (ValueError msg_time_arrays)"
  using Multitaper_update_heap
  by (auto simp: Multitaper_add_def py_is_True_np_any messages_differ
      split: sum.splits prod.splits
      dest!: np_map2_error Multitaper_init_deferred_error)

section \<open>Operators on the sample estimates\<close>

lemma take_nth_same: "take n ys = xs \<Longrightarrow> i < length xs \<Longrightarrow> ys ! i = xs ! i"
  by (metis nth_take length_take min_less_iff_conj)

lemma mul_two_periodograms:
  "Periodogram_mul sample_env 0 (Scalar 3) two_periodograms =
     (Inr 2,
      two_periodograms
        \<lparr>heap := heap two_periodograms @
           [derived_periodogram [0, 1] sample_x
              (map (qscale 3) (spec_periodogram_density sample_env 1 sample_x))],
         calls := calls two_periodograms @ [Call_fftfreq 2, Call_sympSplit, Call_sympSplit]\<rparr>)"
  using Periodogram_mul_ok[of 0 two_periodograms "Scalar 3" sample_env]
  by (simp add: two_periodograms_eq periodogram_of_def sample_x_def)

lemma mul_two_multitapers:
  "Multitaper_mul sample_env 0 (Scalar 3) two_multitapers =
     (Inr 2,
      two_multitapers
        \<lparr>heap := heap two_multitapers @
           [derived_multitaper [0, 1] sample_x (replicate 2 (Some qzero))],
         calls := calls two_multitapers @ [Call_fftfreq 2, Call_sympSplit, Call_sympSplit]\<rparr>)"
  using Multitaper_mul_ok[of 0 two_multitapers "Scalar 3" sample_env]
  by (simp add: two_multitapers_eq multitaper_of_def sample_x_def qscale_nan_def
      qscale_def qzero_def numeral_2_eq_2)

lemma two_periodograms_wf:
  "0 < length (heap two_periodograms)" "2 \<le> length (p_t (heap two_periodograms ! 0))"
  "p_signal (heap two_periodograms ! 0) \<noteq> []" "length (heap two_periodograms) = 2"
  by (simp_all add: two_periodograms_eq periodogram_of_def sample_x_def)

lemma two_multitapers_wf:
  "0 < length (heap two_multitapers)" "2 \<le> length (m_t (heap two_multitapers ! 0))"
  "m_signal (heap two_multitapers ! 0) \<noteq> []" "length (heap two_multitapers) = 2"
  by (simp_all add: two_multitapers_eq multitaper_of_def sample_x_def)

section \<open>The taper count\<close>

lemma Multitaper_init_negative:
  assumes "2 \<le> length t" "x \<noteq> []" "\<lfloor>2 * bw\<rfloor> - 1 < 0"
  shows "Multitaper_init env t (QuatArray x) bw cf s =
     (Inl (ValueError msg_negative_dimensions), log_call (Call_fftfreq (length x)) s)"
  using assms by (simp add: Multitaper_init_def Let_def)

lemma taper_array_no_tapers: "taper_array env N bw 0 = replicate N []"
  by (simp add: taper_array_def map_replicate_const)

lemma size1_replicate: "0 < N \<Longrightarrow> size1 (replicate N row) = length row"
  by (cases N) (simp_all add: size1_def)

lemma quat_mean_Nil: "quat_mean [] = None"
  by (simp add: quat_mean_def)

lemma Multitaper_init_no_tapers:
  assumes "2 \<le> length t" "x \<noteq> []" and K: "\<lfloor>2 * bw\<rfloor> - 1 = 0"
  shows "Multitaper_init env t (QuatArray x) bw cf s =
     (Inr (length (heap s)),
      s\<lparr>heap := heap s @ [multitaper_of t x (replicate (length x) [])
                  (replicate (length x) []) (replicate (length x) None)],
        calls := calls s @ Call_fftfreq (length x) #
                 (if cf then [Call_print 0, Call_dpss (length x) bw 0] else []) @
                 [Call_sympSplit]\<rparr>)"
  unfolding Multitaper_init_def Let_def K
  using assms(1,2)
  by (simp add: Multitaper_getStokes_eq Multitaper_compute_def Let_def size0_def
      size1_replicate taper_array_no_tapers quat_mean_Nil
      new_object_def log_call_def multitaper_of_def frequency_axis_def)

section \<open>The sign of \<open>S0\<close>\<close>

lemma np_map2_elements:
  assumes "np_map2 g xs ys = Inr zs" and "z \<in> set zs"
  shows "\<exists>x\<in>set xs. \<exists>y\<in>set ys. z = g x y"
proof -
  consider "zs = map2 g xs ys" | "length xs = 1" "zs = map (g (hd xs)) ys"
    | "length ys = 1" "zs = map (\<lambda>x. g x (hd ys)) xs"
    using assms(1) by (auto simp: np_map2_def split: if_splits)
  then show ?thesis
  proof cases
    case 1
    with assms(2) obtain x y where "(x, y) \<in> set (zip xs ys)" "z = g x y" by auto
    then show ?thesis by (auto dest: set_zip_leftD set_zip_rightD)
  next
    case 2
    then have "hd xs \<in> set xs" by (cases xs) auto
    with 2 assms(2) show ?thesis by auto
  next
    case 3
    then have "hd ys \<in> set ys" by (cases ys) auto
    with 3 assms(2) show ?thesis by auto
  qed
qed

lemma np_scale_elements:
  assumes "np_scale c d = Inr zs" and "nonneg_operand c" and "z \<in> set zs"
  shows "\<exists>v\<ge>0. \<exists>q\<in>set d. z = qscale v q"
proof (cases c)
  case (Scalar v)
  with assms show ?thesis by (fastforce simp: nonneg_operand_def)
next
  case (Array cs)
  with assms(1,3) obtain v q where "v \<in> set cs" "q \<in> set d" "z = qscale v q"
    using np_map2_elements[of qscale cs d zs z] by auto
  moreover from Array assms(2) have "\<forall>v\<in>set cs. 0 \<le> v"
    by (simp add: nonneg_operand_def list_all_iff)
  ultimately show ?thesis by blast
qed

lemma qw_spec_periodogram_density:
  assumes "stokes_contract env" and "0 \<le> dt" and "q \<in> set (spec_periodogram_density env dt x)"
  shows "0 \<le> qw q"
proof -
  from assms(3) obtain Qk where q: "q = qscale (dt / real (length x))
      (qadd (qreal (qnorm Qk)) (qmul (StokesNorm env Qk) quaternion_y))"
    by (auto simp: spec_periodogram_density_def)
  have "qw (qmul (StokesNorm env Qk) quaternion_y) = 0"
    using assms(1) by (simp add: stokes_contract_def)
  then have "qw q = dt / real (length x) * qnorm Qk"
    by (simp add: q qscale_def qadd_def qreal_def)
  moreover have "0 \<le> qnorm Qk" by (simp add: qnorm_def)
  ultimately show ?thesis using assms(2) by simp
qed

text \<open>
  What each public operation does to the heap, and the invariant of the reachable
  states: the real part of every density entry is non-negative, and \<open>S0\<close> is the real
  part of the density.
\<close>

lemma Periodogram_init_cases:
  assumes "Periodogram_init env t x cf s = (res, s')"
  shows "heap s' = heap s \<or>
         (\<exists>q. x = QuatArray q \<and> heap s' = heap s @ [periodogram_of t q
                 (if cf then spec_periodogram_density env (t ! 1 - t ! 0) q
                  else replicate (length q) qzero)])"
proof (cases res)
  case (Inl e)
  with Periodogram_init_heap[OF assms] show ?thesis by simp
next
  case (Inr r)
  with assms Periodogram_init_Inr[of env t x cf s r s']
  obtain q where "x = QuatArray q" "2 \<le> length t" "q \<noteq> []" by auto
  with assms show ?thesis by (auto simp: Periodogram_init_ok)
qed

lemma Periodogram_add_cases:
  assumes "Periodogram_add env a b s = (res, s')" and "a < length (heap s)" "b < length (heap s)"
  shows "heap s' = heap s
       \<or> (\<exists>t x. heap s' = heap s @ [periodogram_of t x (replicate (length x) qzero)])
       \<or> (\<exists>t x d. np_map2 qadd (p_density (heap s ! a)) (p_density (heap s ! b)) = Inr d
                  \<and> heap s' = heap s @ [derived_periodogram t x d])"
proof (cases "np_map2 (\<lambda>a b. a \<noteq> b) (p_t (heap s ! a)) (p_t (heap s ! b))")
  case (Inl e)
  with assms show ?thesis by (auto simp: Periodogram_add_def)
next
  case ne: (Inr ne)
  let ?t = "p_t (heap s ! a)" and ?x = "p_signal (heap s ! a)"
  obtain r1 s1 where i: "Periodogram_init env ?t (QuatArray ?x) False s = (r1, s1)"
    by (cases "Periodogram_init env ?t (QuatArray ?x) False s")
  show ?thesis
  proof (cases r1)
    case (Inl e)
    with assms ne i Periodogram_init_heap[OF i] show ?thesis
      by (auto simp: Periodogram_add_def py_is_True_np_any)
  next
    case new: (Inr new)
    with i Periodogram_init_Inr[of env ?t "QuatArray ?x" False s new s1]
    have wf: "2 \<le> length ?t" "?x \<noteq> []" by auto
    note ok = Periodogram_init_ok[OF wf, of env False s]
    from i new ok have n: "new = length (heap s)"
      and s1: "heap s1 = heap s @ [periodogram_of ?t ?x (replicate (length ?x) qzero)]"
      by auto
    have same: "heap s1 ! a = heap s ! a" "heap s1 ! b = heap s ! b"
      using assms(2,3) by (simp_all add: s1 nth_append)
    show ?thesis
    proof (cases "np_map2 qadd (p_density (heap s ! a)) (p_density (heap s ! b))")
      case (Inl e)
      with assms(1) ne i new same have "s' = s1"
        by (auto simp: Periodogram_add_def py_is_True_np_any)
      with s1 show ?thesis by blast
    next
      case d: (Inr d)
      from assms(1) ne i new d same have u: "Periodogram_update new d s1 = (res, s')"
        by (simp add: Periodogram_add_def py_is_True_np_any)
      have "new < length (heap s1)" by (simp add: n s1)
      from Periodogram_update_eq[OF this, of d] u
      have "heap s' = heap s @ [derived_periodogram ?t ?x d]"
        by (auto simp: n s1 derived_periodogram_def)
      with d show ?thesis by blast
    qed
  qed
qed

lemma Periodogram_mul_cases:
  assumes "Periodogram_mul env a c s = (res, s')" and "a < length (heap s)"
  shows "heap s' = heap s
       \<or> (\<exists>t x. heap s' = heap s @ [periodogram_of t x (replicate (length x) qzero)])
       \<or> (\<exists>t x d. np_scale c (p_density (heap s ! a)) = Inr d
                  \<and> heap s' = heap s @ [derived_periodogram t x d])"
proof (cases "1 < np_size c")
  case True
  with assms show ?thesis by (auto simp: Periodogram_mul_def)
next
  case False
  let ?t = "p_t (heap s ! a)" and ?x = "p_signal (heap s ! a)"
  obtain r1 s1 where i: "Periodogram_init env ?t (QuatArray ?x) False s = (r1, s1)"
    by (cases "Periodogram_init env ?t (QuatArray ?x) False s")
  show ?thesis
  proof (cases r1)
    case (Inl e)
    with assms False i Periodogram_init_heap[OF i] show ?thesis
      by (auto simp: Periodogram_mul_def)
  next
    case new: (Inr new)
    with i Periodogram_init_Inr[of env ?t "QuatArray ?x" False s new s1]
    have wf: "2 \<le> length ?t" "?x \<noteq> []" by auto
    note ok = Periodogram_init_ok[OF wf, of env False s]
    from i new ok have n: "new = length (heap s)"
      and s1: "heap s1 = heap s @ [periodogram_of ?t ?x (replicate (length ?x) qzero)]"
      by auto
    have same: "heap s1 ! a = heap s ! a"
      using assms(2) by (simp add: s1 nth_append)
    show ?thesis
    proof (cases "np_scale c (p_density (heap s ! a))")
      case (Inl e)
      with assms(1) False i new same have "s' = s1"
        by (auto simp: Periodogram_mul_def)
      with s1 show ?thesis by blast
    next
      case d: (Inr d)
      from assms(1) False i new d same have u: "Periodogram_update new d s1 = (res, s')"
        by (simp add: Periodogram_mul_def)
      have "new < length (heap s1)" by (simp add: n s1)
      from Periodogram_update_eq[OF this, of d] u
      have "heap s' = heap s @ [derived_periodogram ?t ?x d]"
        by (auto simp: n s1 derived_periodogram_def)
      with d show ?thesis by blast
    qed
  qed
qed

lemma reachable_invariant:
  assumes "stokes_contract env" and "reachable env s"
  shows "\<forall>p\<in>set (heap s). (\<forall>q\<in>set (p_density p). 0 \<le> qw q) \<and> p_S0 p = map qw (p_density p)"
  using assms(2)
proof (induction rule: reachable.induct)
  case start
  then show ?case by (simp add: init_state_def)
next
  case (construct s t x computeFlag res s')
  from Periodogram_init_cases[OF construct.hyps(3)] construct.IH construct.hyps(2)
  show ?case
    using qw_spec_periodogram_density[OF assms(1), of "t ! 1 - t ! 0"]
    by (auto simp: periodogram_of_def qzero_def split: if_splits)
next
  case (add s a b res s')
  from add.hyps(2,3) have ab: "heap s ! a \<in> set (heap s)" "heap s ! b \<in> set (heap s)"
    by simp_all
  from Periodogram_add_cases[OF add.hyps(4,2,3)]
  consider "heap s' = heap s"
    | t x where "heap s' = heap s @ [periodogram_of t x (replicate (length x) qzero)]"
    | t x d where "np_map2 qadd (p_density (heap s ! a)) (p_density (heap s ! b)) = Inr d"
        "heap s' = heap s @ [derived_periodogram t x d]"
    by blast
  then show ?case
  proof cases
    case 1
    with add.IH show ?thesis by simp
  next
    case 2
    with add.IH show ?thesis by (auto simp: periodogram_of_def qzero_def)
  next
    case 3
    have "0 \<le> qw z" if "z \<in> set d" for z
    proof -
      from np_map2_elements[OF 3(1) that] obtain u v
        where "u \<in> set (p_density (heap s ! a))" "v \<in> set (p_density (heap s ! b))"
          "z = qadd u v" by blast
      with add.IH ab show ?thesis by (auto simp: qadd_def)
    qed
    with 3(2) add.IH show ?thesis
      by (auto simp: derived_periodogram_def periodogram_of_def)
  qed
next
  case (mul s a c res s')
  from mul.hyps(2) have ab: "heap s ! a \<in> set (heap s)" by simp
  from Periodogram_mul_cases[OF mul.hyps(4,2)]
  consider "heap s' = heap s"
    | t x where "heap s' = heap s @ [periodogram_of t x (replicate (length x) qzero)]"
    | t x d where "np_scale c (p_density (heap s ! a)) = Inr d"
        "heap s' = heap s @ [derived_periodogram t x d]"
    by blast
  then show ?case
  proof cases
    case 1
    with mul.IH show ?thesis by simp
  next
    case 2
    with mul.IH show ?thesis by (auto simp: periodogram_of_def qzero_def)
  next
    case 3
    have "0 \<le> qw z" if "z \<in> set d" for z
    proof -
      from np_scale_elements[OF 3(1) mul.hyps(3) that] obtain v u
        where "0 \<le> v" "u \<in> set (p_density (heap s ! a))" "z = qscale v u" by blast
      with mul.IH ab show ?thesis by (auto simp: qscale_def)
    qed
    with 3(2) mul.IH show ?thesis
      by (auto simp: derived_periodogram_def periodogram_of_def)
  qed
qed

lemma sample_density:
  "spec_periodogram_density sample_env dt sample_x
     = [Quat (dt / 2 * 5) 0 0 (dt / 2 * 4), Quat (dt / 2 * 5) 0 0 (dt / 2 * 4)]"
  by (simp add: spec_periodogram_density_def sample_env_def sample_x_def Qfft_spec2
      qadd_def qscale_def qmul_def qnorm_def qreal_def quaternion_y_def)

lemma stokes_contract_sample: "stokes_contract sample_env"
  by (simp add: stokes_contract_def sample_env_def qmul_def quaternion_y_def)

lemma one_periodogram_wf:
  "0 < length (heap one_periodogram)" "2 \<le> length (p_t (heap one_periodogram ! 0))"
  "p_signal (heap one_periodogram ! 0) \<noteq> []" "length (heap one_periodogram) = 1"
  by (simp_all add: one_periodogram_eq periodogram_of_def sample_x_def)

lemma negate_one_periodogram:
  "Periodogram_rmul sample_env 0 (Scalar (- 1)) one_periodogram =
     (Inr 1,
      one_periodogram
        \<lparr>heap := heap one_periodogram @
           [derived_periodogram [0, 1] sample_x
              (map (qscale (- 1)) (spec_periodogram_density sample_env 1 sample_x))],
         calls := calls one_periodogram @ [Call_fftfreq 2, Call_sympSplit, Call_sympSplit]\<rparr>)"
  using Periodogram_mul_ok[of 0 one_periodogram "Scalar (- 1)" sample_env]
  by (simp add: Periodogram_rmul_def one_periodogram_eq periodogram_of_def sample_x_def)

lemma reachable_one_periodogram: "reachable sample_env one_periodogram"
proof -
  have "Periodogram_init sample_env [0, 1] (QuatArray sample_x) True init_state
          = (fst (Periodogram_init sample_env [0, 1] (QuatArray sample_x) True init_state),
             one_periodogram)"
    by (simp add: one_periodogram_def)
  from reachable.construct[OF reachable.start _ this] show ?thesis by simp
qed

lemma reachable_two_periodograms: "reachable sample_env two_periodograms"
proof -
  have "Periodogram_init sample_env [0, 2] (QuatArray sample_x) True one_periodogram
          = (fst (Periodogram_init sample_env [0, 2] (QuatArray sample_x) True one_periodogram),
             two_periodograms)"
    by (simp add: two_periodograms_def)
  from reachable.construct[OF reachable_one_periodogram _ this] show ?thesis by simp
qed

lemma reachable_sum:
  "reachable sample_env (snd (Periodogram_add sample_env 0 1 two_periodograms))"
  by (rule reachable.add[OF reachable_two_periodograms _ _ surjective_pairing])
     (simp_all add: two_periodograms_eq)

section \<open>The taper loop\<close>

lemma length_column: "length (column n a) = length a"
  by (simp add: column_def)

lemma size1_rows: "a \<noteq> [] \<Longrightarrow> \<forall>row\<in>set a. length row = K \<Longrightarrow> size1 a = K"
  by (cases a) (simp_all add: size1_def)

lemma column_assign:
  assumes "length col = length D" and "\<forall>row\<in>set D. length row = K" and "n < K"
  shows "column m (map2 (\<lambda>row v. row[n := v]) D col) = (if m = n then col else column m D)"
proof -
  have "column m (map2 (\<lambda>row v. row[n := v]) D col) ! i = (if m = n then col else column m D) ! i"
    if "i < length D" for i
  proof -
    from that assms(2) have "length (D ! i) = K" by simp
    with that assms(1,3) show ?thesis by (simp add: column_def)
  qed
  with assms(1) show ?thesis
    by (intro nth_equalityI) (simp_all add: column_def)
qed

lemma assign_column_ok:
  assumes "length col = length D" and "D \<noteq> []" and "\<forall>row\<in>set D. length row = K" and "n < K"
  shows "assign_column n col D = Inr (map2 (\<lambda>row v. row[n := v]) D col)"
  using assms size1_rows[of D K] by (simp add: assign_column_def)

lemma rows_assign:
  assumes "\<forall>row\<in>set D. length row = K"
  shows "\<forall>row\<in>set (map2 (\<lambda>row v. row[n := v]) D col). length row = K"
  using assms by (auto dest: set_zip_leftD)

lemma taper_column_eq:
  "map (qscale dt) (map (spectral_term env) (Qfft env (map2 (\<lambda>q w. qscale w q) x taper)))
     = spec_taper_density env dt x taper"
  by (simp add: spec_taper_density_def spectral_term_def)

lemma length_spec_taper_density:
  "qfft_contract env \<Longrightarrow> length x = length taper \<Longrightarrow>
     length (spec_taper_density env dt x taper) = length x"
  by (simp add: spec_taper_density_def qfft_contract_def)

lemma taper_loop_ok:
  assumes c: "qfft_contract env" and x: "m_signal self = x" and W: "m_dpss self = W"
    and N: "length x = length W" "length (m_densities self) = length W" "W \<noteq> []"
    and K: "\<forall>row\<in>set (m_densities self). length row = K" "\<forall>n\<in>set ns. n < K"
  shows "\<exists>D s'. taper_loop env dt ns self s = (Inr (), self\<lparr>m_densities := D\<rparr>, s')
           \<and> heap s' = heap s \<and> length D = length W \<and> (\<forall>row\<in>set D. length row = K)
           \<and> (\<forall>n<K. column n D = (if n \<in> set ns then spec_taper_density env dt x (column n W)
                                   else column n (m_densities self)))"
  using x W N(2) K
proof (induction ns arbitrary: self s)
  case Nil
  then show ?case by (auto intro!: exI[of _ "m_densities self"])
next
  case (Cons n ns)
  let ?D0 = "m_densities self"
  let ?col = "spec_taper_density env dt x (column n W)"
  let ?D1 = "map2 (\<lambda>row v. row[n := v]) ?D0 ?col"
  let ?self1 = "self\<lparr>m_densities := ?D1\<rparr>"
  let ?s1 = "log_call Call_StokesNorm (log_call Call_Qfft s)"
  from Cons.prems have n: "n < K" by simp
  have lc: "length ?col = length ?D0"
    using length_spec_taper_density[OF c, of x "column n W" dt] N(1) Cons.prems(3)
    by (simp add: length_column)
  have D0: "?D0 \<noteq> []" using Cons.prems(3) N(3) by auto
  have xw: "np_map2 (\<lambda>q w. qscale w q) (m_signal self) (column n (m_dpss self))
              = Inr (map2 (\<lambda>q w. qscale w q) x (column n W))"
    using Cons.prems(1,2) N(1) by (simp add: np_map2_same length_column)
  have ac: "assign_column n ?col ?D0 = Inr ?D1"
    by (rule assign_column_ok[OF lc D0 Cons.prems(4) n])
  have step: "taper_loop env dt (n # ns) self s = taper_loop env dt ns ?self1 ?s1"
    by (simp only: taper_loop.simps xw sum.case Let_def taper_column_eq ac)
  have rows1: "\<forall>row\<in>set (m_densities ?self1). length row = K"
    using rows_assign[OF Cons.prems(4)] by simp
  have len1: "length (m_densities ?self1) = length W"
    using lc Cons.prems(3) by simp
  from Cons.IH[of ?self1 ?s1] Cons.prems(1,2,5) rows1 len1
  obtain D s' where r: "taper_loop env dt ns ?self1 ?s1 = (Inr (), ?self1\<lparr>m_densities := D\<rparr>, s')"
    and h: "heap s' = heap ?s1" and l: "length D = length W"
    and rw: "\<forall>row\<in>set D. length row = K"
    and cols: "\<forall>m<K. column m D = (if m \<in> set ns then spec_taper_density env dt x (column m W)
                                   else column m (m_densities ?self1))"
    by auto
  have "column m D = (if m \<in> set (n # ns) then spec_taper_density env dt x (column m W)
                       else column m ?D0)" if "m < K" for m
    using cols that column_assign[OF lc Cons.prems(4) n, of m] by auto
  with step r h l rw show ?case
    by (auto simp: log_call_def)
qed

lemma taper_array_shape:
  "length (taper_array env N bw K) = N" "\<forall>row\<in>set (taper_array env N bw K). length row = K"
  by (auto simp: taper_array_def)

lemma Multitaper_compute_ok:
  assumes c: "qfft_contract env" and t: "2 \<le> length (m_t self)" and N: "0 < N"
    and x: "length (m_signal self) = N"
    and W: "length (m_dpss self) = N" "\<forall>row\<in>set (m_dpss self). length row = K"
    and D: "length (m_densities self) = N" "\<forall>row\<in>set (m_densities self). length row = K"
  shows "\<exists>D s'. Multitaper_compute env self bw s
                  = (Inr (), self\<lparr>m_dpss := taper_array env N bw K, m_densities := D\<rparr>, s')
           \<and> heap s' = heap s \<and> length D = N \<and> (\<forall>row\<in>set D. length row = K)
           \<and> (\<forall>n<K. column n D = spec_taper_density env (m_t self ! 1 - m_t self ! 0)
                                     (m_signal self) (column n (taper_array env N bw K)))"
proof -
  let ?W = "taper_array env N bw K"
  let ?self1 = "self\<lparr>m_dpss := ?W\<rparr>"
  let ?s2 = "log_call (Call_dpss N bw K) (log_call (Call_print K) s)"
  let ?dt = "m_t self ! 1 - m_t self ! 0"
  from W N have s1: "size1 (m_dpss self) = K"
    by (intro size1_rows) auto
  have step: "Multitaper_compute env self bw s = taper_loop env ?dt [0..<K] ?self1 ?s2"
    using t by (simp add: Multitaper_compute_def Let_def size0_def s1 W(1))
  have Wne: "?W \<noteq> []" using taper_array_shape(1)[of env N bw K] N by auto
  from taper_loop_ok[OF c, of ?self1 "m_signal self" ?W K "[0..<K]" ?dt ?s2]
    x D Wne taper_array_shape[of env N bw K]
  obtain D' s' where
    "taper_loop env ?dt [0..<K] ?self1 ?s2 = (Inr (), ?self1\<lparr>m_densities := D'\<rparr>, s')"
    "heap s' = heap ?s2" "length D' = length ?W" "\<forall>row\<in>set D'. length row = K"
    "\<forall>n<K. column n D' = spec_taper_density env ?dt (m_signal self) (column n ?W)"
    by auto
  with step taper_array_shape(1)[of env N bw K] show ?thesis
    by (auto simp: log_call_def)
qed

lemma Multitaper_init_computed:
  assumes c: "qfft_contract env" and t: "2 \<le> length t" and x: "x \<noteq> []"
    and K: "\<lfloor>2 * bw\<rfloor> - 1 = int K"
  shows "\<exists>D s'. Multitaper_init env t (QuatArray x) bw True s = (Inr (length (heap s)), s')
           \<and> heap s' = heap s @ [multitaper_of t x D (taper_array env (length x) bw K)
                                   (map quat_mean D)]
           \<and> length D = length x \<and> (\<forall>row\<in>set D. length row = K)
           \<and> (\<forall>n<K. column n D = spec_taper_density env (t ! 1 - t ! 0) x
                                     (column n (taper_array env (length x) bw K)))"
proof -
  define N where "N = length x"
  define s1 where "s1 = log_call (Call_fftfreq N) s"
  define self0 where "self0 = \<lparr>m_t = t, m_signal = x,
                  m_f = (if t ! 1 - t ! 0 = 0 then None
                         else Some (map (\<lambda>v. v / (t ! 1 - t ! 0)) (fftfreq N))),
                  m_densities = replicate N (replicate K qzero),
                  m_dpss = replicate N (replicate K 0),
                  m_density = [],
                  m_S0 = [], m_S1 = [], m_S2 = [], m_S3 = [],
                  m_S1n = [], m_S2n = [], m_S3n = [], m_Phi = []\<rparr>"
  have sel: "m_t self0 = t" "m_signal self0 = x"
    by (simp_all add: self0_def)
  have pre: "2 \<le> length (m_t self0)" "0 < N" "length (m_signal self0) = N"
    "length (m_dpss self0) = N" "\<forall>row\<in>set (m_dpss self0). length row = K"
    "length (m_densities self0) = N" "\<forall>row\<in>set (m_densities self0). length row = K"
    using t x by (simp_all add: self0_def N_def)
  note ok = Multitaper_compute_ok[OF c pre, of bw s1, unfolded sel]
  then obtain D s2 where
    cmp: "Multitaper_compute env self0 bw s1
          = (Inr (), self0\<lparr>m_dpss := taper_array env N bw K, m_densities := D\<rparr>, s2)"
    and h: "heap s2 = heap s1" and l: "length D = N" and r: "\<forall>row\<in>set D. length row = K"
    and cols: "\<forall>n<K. column n D = spec_taper_density env (t ! 1 - t ! 0) x
                                     (column n (taper_array env N bw K))"
    by blast
  have i: "Multitaper_init env t (QuatArray x) bw True s =
          (case Multitaper_compute env self0 bw s1 of
             (Inl e, self1, s2) \<Rightarrow> (Inl e, s2)
           | (Inr u, self1, s2) \<Rightarrow>
              (let self2 = self1\<lparr>m_density := map quat_mean (m_densities self1)\<rparr>
               in (case Multitaper_getStokes self2 s2 of
                     ((S0, S1, S2, S3), s3) \<Rightarrow>
                       new_object
                         (self2\<lparr>m_S0 := S0, m_S1 := S1, m_S2 := S2, m_S3 := S3,
                                m_S1n := replicate (length S0) 0,
                                m_S2n := replicate (length S0) 0,
                                m_S3n := replicate (length S0) 0,
                                m_Phi := replicate (length S0) 0\<rparr>) s3)))"
    unfolding Multitaper_init_def Let_def K self0_def s1_def N_def
    using t x by simp
  have "Multitaper_init env t (QuatArray x) bw True s =
          (Inr (length (heap s2)),
           s2\<lparr>heap := heap s2 @ [multitaper_of t x D (taper_array env N bw K)
                                   (map quat_mean D)],
              calls := calls s2 @ [Call_sympSplit]\<rparr>)"
    unfolding i cmp
    by (simp add: Multitaper_getStokes_eq new_object_def log_call_def multitaper_of_def
        frequency_axis_def self0_def l N_def[symmetric])
  with h l r cols show ?thesis
    unfolding N_def[symmetric] by (simp add: log_call_def s1_def) blast
qed

section \<open>Periodogram and unit taper\<close>

lemma qscale_one: "qscale 1 q = q"
  by (simp add: qscale_def)

lemma map2_unit_taper: "map2 (\<lambda>q w. qscale w q) x (replicate (length x) 1) = x"
  by (induction x) (simp_all add: qscale_one)

lemma periodogram_is_scaled_unit_taper:
  "spec_periodogram_density env dt x
     = map (qscale (1 / real (length x))) (spec_taper_density env dt x (replicate (length x) 1))"
proof -
  have "spec_taper_density env dt x (replicate (length x) 1)
          = map (\<lambda>Qk. qscale dt (qadd (qreal (qnorm Qk)) (qmul (StokesNorm env Qk) quaternion_y)))
              (Qfft env x)"
    by (simp only: spec_taper_density_def map2_unit_taper)
  then show ?thesis
    by (simp add: spec_periodogram_density_def qscale_def)
qed

lemma qfft_contract_sample: "qfft_contract sample_env"
  by (simp add: qfft_contract_def sample_env_def length_Qfft_spec)

lemma sample_first_taper: "column 0 (taper_array sample_env 2 bw 4) = replicate 2 1"
  by (simp add: column_def taper_array_def sample_env_def upt2 numeral_2_eq_2)

section \<open>A manual \<open>compute()\<close>\<close>

lemma Periodogram_compute_at_ok:
  assumes "r < length (heap s)" "2 \<le> length (p_t (heap s ! r))" "p_signal (heap s ! r) \<noteq> []"
  shows "Periodogram_compute_at env r s =
     (Inr (),
      s\<lparr>heap := (heap s)[r := (heap s ! r)\<lparr>p_density :=
                  spec_periodogram_density env (p_t (heap s ! r) ! 1 - p_t (heap s ! r) ! 0)
                    (p_signal (heap s ! r))\<rparr>],
        calls := calls s @ [Call_Qfft, Call_StokesNorm]\<rparr>)"
  using assms
  by (simp add: Periodogram_compute_at_def Periodogram_compute_ok store_def log_call_def)

lemma Multitaper_compute_at_ok:
  assumes c: "qfft_contract env" and r: "r < length (heap s)"
    and t: "2 \<le> length (m_t (heap s ! r))" and N: "0 < N"
    and x: "length (m_signal (heap s ! r)) = N"
    and W: "length (m_dpss (heap s ! r)) = N" "\<forall>row\<in>set (m_dpss (heap s ! r)). length row = K"
    and D: "length (m_densities (heap s ! r)) = N"
      "\<forall>row\<in>set (m_densities (heap s ! r)). length row = K"
  shows "\<exists>D s'. Multitaper_compute_at env r bw s = (Inr (), s')
           \<and> heap s' = (heap s)[r := (heap s ! r)\<lparr>m_dpss := taper_array env N bw K,
                                                  m_densities := D\<rparr>]
           \<and> (\<forall>n<K. column n D = spec_taper_density env
                        (m_t (heap s ! r) ! 1 - m_t (heap s ! r) ! 0)
                        (m_signal (heap s ! r)) (column n (taper_array env N bw K)))"
proof -
  from Multitaper_compute_ok[OF c t N x W D, of bw s]
  obtain D' s1 where
    cmp: "Multitaper_compute env (heap s ! r) bw s
            = (Inr (), (heap s ! r)\<lparr>m_dpss := taper_array env N bw K, m_densities := D'\<rparr>, s1)"
    and h: "heap s1 = heap s"
    and cols: "\<forall>n<K. column n D' = spec_taper_density env
                        (m_t (heap s ! r) ! 1 - m_t (heap s ! r) ! 0)
                        (m_signal (heap s ! r)) (column n (taper_array env N bw K))"
    by blast
  have "Multitaper_compute_at env r bw s
          = (Inr (), store r ((heap s ! r)\<lparr>m_dpss := taper_array env N bw K,
                                            m_densities := D'\<rparr>) s1)"
    unfolding Multitaper_compute_at_def cmp by simp
  moreover have "heap (store r ((heap s ! r)\<lparr>m_dpss := taper_array env N bw K,
                                            m_densities := D'\<rparr>) s1)
                  = (heap s)[r := (heap s ! r)\<lparr>m_dpss := taper_array env N bw K,
                                                  m_densities := D'\<rparr>]"
    by (simp add: store_def h)
  ultimately show ?thesis using cols by blast
qed

lemma upt4: "[0..<4] = [0, 1, 2, 3]"
  by code_simp

lemma sample_taper_array:
  "taper_array sample_env 2 bw 4 = [[1, 1, 1, 1], [1, 2, 4, 8]]"
  by (simp add: taper_array_def sample_env_def upt2 upt4)

lemma one_multitaper_wf:
  "0 < length (heap one_multitaper)" "2 \<le> length (m_t (heap one_multitaper ! 0))"
  "0 < (2 :: nat)" "length (m_signal (heap one_multitaper ! 0)) = 2"
  "length (m_dpss (heap one_multitaper ! 0)) = 2"
  "\<forall>row\<in>set (m_dpss (heap one_multitaper ! 0)). length row = 4"
  "length (m_densities (heap one_multitaper ! 0)) = 2"
  "\<forall>row\<in>set (m_densities (heap one_multitaper ! 0)). length row = 4"
  by (simp_all add: one_multitaper_eq multitaper_of_def sample_x_def)

section \<open>The claims\<close>

text \<open>
  C1.  Let \<open>Qfft\<close> return an array of the length of its input, \<open>t\<close> have at least two
  samples, \<open>x\<close> be a non-empty quaternion signal and \<open>K = floor(2 bw) - 1\<close> be
  non-negative.  Then both constructors succeed and, with \<open>dt = t[1] - t[0]\<close> and
  \<open>N\<close> the length of \<open>x\<close>: the density of \<open>Periodogram(t, x)\<close> is the specification's
  \<open>(dt/N) (norm(Q) + StokesNorm(Q) j)\<close> at every index, \<open>Q = QFT(x)\<close>; the tapers
  \<open>Multitaper(t, x, bw)\<close> stores are those of \<open>dpss(N, bw, K)\<close>, and column \<open>n\<close> of its
  per-taper densities is \<open>dt (norm(Qn) + StokesNorm(Qn) j)\<close>, \<open>Qn = QFT(x \<odot> taper_n)\<close>,
  with no division by \<open>N\<close>; and the two differ by exactly the factor \<open>1/N\<close>: for a taper
  that leaves the signal as it is (all ones), the periodogram density is \<open>1/N\<close> times
  the taper's column.
\<close>

theorem density_scalings:
  assumes "qfft_contract env" and "2 \<le> length t" and "x \<noteq> []"
    and "\<lfloor>2 * bw\<rfloor> - 1 = int K"
  shows "\<exists>s' m'.
           Periodogram_init env t (QuatArray x) True s = (Inr (length (heap s)), s')
           \<and> Multitaper_init env t (QuatArray x) bw True m = (Inr (length (heap m)), m')
           \<and> p_density (heap s' ! length (heap s))
               = spec_periodogram_density env (t ! 1 - t ! 0) x
           \<and> m_dpss (heap m' ! length (heap m)) = taper_array env (length x) bw K
           \<and> (\<forall>n<K. column n (m_densities (heap m' ! length (heap m)))
                      = spec_taper_density env (t ! 1 - t ! 0) x
                          (column n (taper_array env (length x) bw K)))
           \<and> (\<forall>n<K. column n (taper_array env (length x) bw K) = replicate (length x) 1 \<longrightarrow>
                    p_density (heap s' ! length (heap s))
                      = map (qscale (1 / real (length x)))
                          (column n (m_densities (heap m' ! length (heap m)))))"
proof -
  let ?dt = "t ! 1 - t ! 0"
  let ?W = "taper_array env (length x) bw K"
  from Multitaper_init_computed[OF assms, of m]
  obtain D m' where mi: "Multitaper_init env t (QuatArray x) bw True m = (Inr (length (heap m)), m')"
    and hm: "heap m' = heap m @ [multitaper_of t x D ?W (map quat_mean D)]"
    and cols: "\<forall>n<K. column n D = spec_taper_density env ?dt x (column n ?W)"
    by blast
  define s' where "s' = s\<lparr>heap := heap s @ [periodogram_of t x (spec_periodogram_density env ?dt x)],
        calls := calls s @ [Call_fftfreq (length x), Call_Qfft, Call_StokesNorm, Call_sympSplit]\<rparr>"
  have pi: "Periodogram_init env t (QuatArray x) True s = (Inr (length (heap s)), s')"
    using Periodogram_init_ok[OF assms(2,3), of env True s] by (simp add: s'_def)
  have pd: "p_density (heap s' ! length (heap s)) = spec_periodogram_density env ?dt x"
    by (simp add: s'_def periodogram_of_def)
  have md: "m_densities (heap m' ! length (heap m)) = D"
    and mw: "m_dpss (heap m' ! length (heap m)) = ?W"
    by (simp_all add: hm multitaper_of_def)
  have unit: "p_density (heap s' ! length (heap s))
                = map (qscale (1 / real (length x))) (column n D)"
    if "n < K" "column n ?W = replicate (length x) 1" for n
    using that cols pd periodogram_is_scaled_unit_taper[of env ?dt x] by simp
  from pi mi pd mw cols unit show ?thesis
    unfolding md[symmetric] by blast
qed

theorem density_scalings_witness:
  "qfft_contract sample_env
   \<and> \<lfloor>2 * (5 / 2 :: real)\<rfloor> - 1 = int 4
   \<and> column 0 (taper_array sample_env (length sample_x) (5 / 2) 4)
       = replicate (length sample_x) 1
   \<and> (\<exists>s' m'.
         Periodogram_init sample_env [0, 1] (QuatArray sample_x) True init_state = (Inr 0, s')
         \<and> Multitaper_init sample_env [0, 1] (QuatArray sample_x) (5 / 2) True init_state
             = (Inr 0, m')
         \<and> p_density (heap s' ! 0) = spec_periodogram_density sample_env 1 sample_x
         \<and> column 0 (m_densities (heap m' ! 0))
             = spec_taper_density sample_env 1 sample_x (replicate (length sample_x) 1)
         \<and> p_density (heap s' ! 0)
             = map (qscale (1 / 2)) (column 0 (m_densities (heap m' ! 0))))"
proof -
  have l: "2 \<le> length [0, 1 :: real]" "sample_x \<noteq> []" "length sample_x = 2"
    by (simp_all add: sample_x_def)
  have u: "column 0 (taper_array sample_env (length sample_x) (5 / 2) 4)
       = replicate (length sample_x) 1"
    unfolding l(3) by (rule sample_first_taper)
  from density_scalings[OF qfft_contract_sample l(1,2) default_bandwidth,
      of init_state init_state]
  obtain s' m' where
    a: "Periodogram_init sample_env [0, 1] (QuatArray sample_x) True init_state
       = (Inr (length (heap (init_state :: periodogram state))), s')"
    and b: "Multitaper_init sample_env [0, 1] (QuatArray sample_x) (5 / 2) True init_state
       = (Inr (length (heap (init_state :: multitaper state))), m')"
    and c: "p_density (heap s' ! length (heap (init_state :: periodogram state)))
       = spec_periodogram_density sample_env ([0, 1] ! 1 - [0, 1] ! 0) sample_x"
    and d: "\<forall>n<4. column n (m_densities (heap m' ! length (heap (init_state :: multitaper state))))
               = spec_taper_density sample_env ([0, 1] ! 1 - [0, 1] ! 0) sample_x
                   (column n (taper_array sample_env (length sample_x) (5 / 2) 4))"
    and e: "\<forall>n<4. column n (taper_array sample_env (length sample_x) (5 / 2) 4)
                = replicate (length sample_x) 1 \<longrightarrow>
             p_density (heap s' ! length (heap (init_state :: periodogram state)))
               = map (qscale (1 / real (length sample_x)))
                   (column n (m_densities
                      (heap m' ! length (heap (init_state :: multitaper state)))))"
    by blast
  have z: "length (heap (init_state :: periodogram state)) = 0"
    "length (heap (init_state :: multitaper state)) = 0"
    by (simp_all add: init_state_def)
  have a': "Periodogram_init sample_env [0, 1] (QuatArray sample_x) True init_state = (Inr 0, s')"
    using a unfolding z .
  have b': "Multitaper_init sample_env [0, 1] (QuatArray sample_x) (5 / 2) True init_state
       = (Inr 0, m')"
    using b unfolding z .
  have c': "p_density (heap s' ! 0) = spec_periodogram_density sample_env 1 sample_x"
    using c unfolding z by simp
  have d': "column 0 (m_densities (heap m' ! 0))
             = spec_taper_density sample_env 1 sample_x (replicate (length sample_x) 1)"
    using d[unfolded z, rule_format, of 0] u by simp
  have e': "p_density (heap s' ! 0) = map (qscale (1 / 2)) (column 0 (m_densities (heap m' ! 0)))"
    using e[unfolded z, rule_format, of 0] u by (simp add: l(3))
  from qfft_contract_sample default_bandwidth u a' b' c' d' e' show ?thesis by blast
qed

text \<open>
  C2.  Stokes extraction applies the symplectic split to the density, giving
  \<open>(g1, g2)\<close>, and returns \<open>S0 = Re g1\<close>, \<open>S1 = Im g1\<close>, \<open>S2 = Im g2\<close> and
  \<open>S3 = Re g2\<close>: the last two come from \<open>g2\<close> in crossed order.  This holds for
  \<open>Periodogram._getStokes\<close> and for \<open>Multitaper._getStokes\<close> (entry by entry, a
  \<open>nan\<close> entry staying \<open>nan\<close>).
\<close>

theorem getStokes_crossed_order:
  "fst (Periodogram_getStokes p s) =
     (map Re (fst (sympSplit (p_density p))), map Im (fst (sympSplit (p_density p))),
      map Im (snd (sympSplit (p_density p))), map Re (snd (sympSplit (p_density p))))
   \<and> fst (Multitaper_getStokes m s') =
     (map (map_option Re) (fst (sympSplit_nan (m_density m))),
      map (map_option Im) (fst (sympSplit_nan (m_density m))),
      map (map_option Im) (snd (sympSplit_nan (m_density m))),
      map (map_option Re) (snd (sympSplit_nan (m_density m))))"
  by (simp add: Periodogram_getStokes_def Multitaper_getStokes_def split: prod.splits)

text \<open>
  C3.  The source tests \<open>np.any(self.t != other.t) is True\<close>.  \<open>np.any\<close> answers a
  numpy boolean, which is never the object \<open>True\<close>, so the test fails for every pair
  of time axes and the axis-mismatch error is never raised.  On two estimates whose
  time axes are \<open>[0, 1]\<close> and \<open>[0, 2]\<close> the addition returns a new estimate (with the
  element-wise sum of the densities) where the claim demands the error.
\<close>

theorem add_ignores_axis_mismatch:
  "p_t (heap two_periodograms ! 0) = [0, 1]
   \<and> p_t (heap two_periodograms ! 1) = [0, 2]
   \<and> fst (Periodogram_add sample_env 0 1 two_periodograms) = Inr 2
   \<and> p_density (heap (snd (Periodogram_add sample_env 0 1 two_periodograms)) ! 2)
       = map2 qadd (p_density (heap two_periodograms ! 0)) (p_density (heap two_periodograms ! 1))
   \<and> m_t (heap two_multitapers ! 0) = [0, 1]
   \<and> m_t (heap two_multitapers ! 1) = [0, 2]
   \<and> fst (Multitaper_add sample_env 0 1 two_multitapers) = Inr 2"
  unfolding add_two_periodograms add_two_multitapers
  by (simp add: two_periodograms_eq two_multitapers_eq periodogram_of_def multitaper_of_def
        derived_periodogram_def)

text \<open>
  C4.  The claim fails: the constructor has no check of the bandwidth.  With
  \<open>bw = 1/2\<close> the taper count is \<open>floor(2 bw) - 1 = 0 < 1\<close>, yet
  \<open>Multitaper(t, x, bw)\<close> returns an estimate, having asked the taper generator for
  zero tapers.
\<close>

theorem no_bandwidth_check_counterexample:
  "\<lfloor>2 * (1 / 2 :: real)\<rfloor> - 1 < 1
   \<and> fst (Multitaper_init sample_env [0, 1] (QuatArray sample_x) (1 / 2) True init_state)
       = Inr 0
   \<and> calls (snd (Multitaper_init sample_env [0, 1] (QuatArray sample_x) (1 / 2) True
               init_state))
       = [Call_fftfreq 2, Call_print 0, Call_dpss 2 (1 / 2) 0, Call_sympSplit]"
  by (simp add: Multitaper_init_no_tapers sample_x_def init_state_def)

text \<open>
  C4, amended.  For a time axis of at least two samples and a non-empty quaternion
  signal: when \<open>floor(2 bw) - 1\<close> is negative, the constructor raises numpy's
  \<open>ValueError\<close> for a negative array dimension, and the only collaborator called before
  that is \<open>fftfreq\<close>: no tapers were requested.  When \<open>floor(2 bw) - 1 = 0\<close> it raises
  nothing: it returns an estimate whose averaged density is \<open>nan\<close> in every entry, and
  with \<open>computeFlag=True\<close> it has requested a bank of zero tapers.
\<close>

theorem negative_taper_count_raises:
  assumes "2 \<le> length t" and "x \<noteq> []"
  shows "(\<lfloor>2 * bw\<rfloor> - 1 < 0 \<longrightarrow>
            Multitaper_init env t (QuatArray x) bw computeFlag s
              = (Inl (ValueError msg_negative_dimensions), s\<lparr>calls := calls s @ [Call_fftfreq (length x)]\<rparr>))
       \<and> (\<lfloor>2 * bw\<rfloor> - 1 = 0 \<longrightarrow>
            (\<exists>s'. Multitaper_init env t (QuatArray x) bw computeFlag s
                    = (Inr (length (heap s)), s')
                  \<and> m_density (heap s' ! length (heap s)) = replicate (length x) None
                  \<and> calls s' = calls s @ Call_fftfreq (length x) #
                      (if computeFlag then [Call_print 0, Call_dpss (length x) bw 0] else []) @
                      [Call_sympSplit]))"
proof (intro conjI impI)
  assume "\<lfloor>2 * bw\<rfloor> - 1 < 0"
  from Multitaper_init_negative[OF assms this]
  show "Multitaper_init env t (QuatArray x) bw computeFlag s
          = (Inl (ValueError msg_negative_dimensions), s\<lparr>calls := calls s @ [Call_fftfreq (length x)]\<rparr>)"
    by (simp add: log_call_def)
next
  assume "\<lfloor>2 * bw\<rfloor> - 1 = 0"
  from Multitaper_init_no_tapers[OF assms this]
  show "\<exists>s'. Multitaper_init env t (QuatArray x) bw computeFlag s = (Inr (length (heap s)), s')
          \<and> m_density (heap s' ! length (heap s)) = replicate (length x) None
          \<and> calls s' = calls s @ Call_fftfreq (length x) #
              (if computeFlag then [Call_print 0, Call_dpss (length x) bw 0] else []) @
              [Call_sympSplit]"
    by (simp add: multitaper_of_def)
qed

theorem negative_taper_count_raises_witness:
  "\<lfloor>2 * (1 / 4 :: real)\<rfloor> - 1 < 0
   \<and> Multitaper_init sample_env [0, 1] (QuatArray sample_x) (1 / 4) True init_state
       = (Inl (ValueError msg_negative_dimensions), \<lparr>heap = [], calls = [Call_fftfreq 2]\<rparr>)
   \<and> \<lfloor>2 * (1 / 2 :: real)\<rfloor> - 1 = 0
   \<and> (\<exists>s'. Multitaper_init sample_env [0, 1] (QuatArray sample_x) (1 / 2) True init_state
               = (Inr 0, s')
          \<and> m_density (heap s' ! 0) = [None, None]
          \<and> calls s' = [Call_fftfreq 2, Call_print 0, Call_dpss 2 (1 / 2) 0, Call_sympSplit])"
proof -
  have l: "2 \<le> length [0, 1 :: real]" "sample_x \<noteq> []"
    by (simp_all add: sample_x_def)
  note w1 = negative_taper_count_raises[OF l, of "1 / 4" sample_env True init_state]
  note w2 = negative_taper_count_raises[OF l, of "1 / 2" sample_env True init_state]
  have a: "Multitaper_init sample_env [0, 1] (QuatArray sample_x) (1 / 4) True init_state
       = (Inl (ValueError msg_negative_dimensions), \<lparr>heap = [], calls = [Call_fftfreq 2]\<rparr>)"
    using w1 by (simp add: init_state_def sample_x_def)
  have b: "\<exists>s'. Multitaper_init sample_env [0, 1] (QuatArray sample_x) (1 / 2) True init_state
               = (Inr 0, s')
          \<and> m_density (heap s' ! 0) = [None, None]
          \<and> calls s' = [Call_fftfreq 2, Call_print 0, Call_dpss 2 (1 / 2) 0, Call_sympSplit]"
    using w2 by (simp add: init_state_def sample_x_def numeral_2_eq_2)
  from a b show ?thesis by simp
qed

text \<open>
  C5.  Whenever \<open>Periodogram(t, x)\<close> is constructed, adding the estimate to itself and
  multiplying it by the scalar 2 both succeed, and the two results have the same
  density, entry by entry: the element-wise sum of the estimate's density with itself.
\<close>

theorem add_self_equals_twice:
  assumes "Periodogram_init env t x computeFlag s = (Inr e, s1)"
  shows "\<exists>a s2 b s3.
           Periodogram_add env e e s1 = (Inr a, s2)
           \<and> Periodogram_rmul env e (Scalar 2) s2 = (Inr b, s3)
           \<and> p_density (heap s3 ! a) = p_density (heap s3 ! b)
           \<and> p_density (heap s3 ! a) = map2 qadd (p_density (heap s1 ! e)) (p_density (heap s1 ! e))"
proof -
  from Periodogram_init_Inr[OF assms]
  obtain q where x: "x = QuatArray q" and t: "2 \<le> length t" and q: "q \<noteq> []" by blast
  define d where "d = (if computeFlag then spec_periodogram_density env (t ! 1 - t ! 0) q
                  else replicate (length q) qzero)"
  from assms x have e: "e = length (heap s)"
    and s1: "s1 = s\<lparr>heap := heap s @ [periodogram_of t q d],
        calls := calls s @ Call_fftfreq (length q) #
                 (if computeFlag then [Call_Qfft, Call_StokesNorm] else []) @ [Call_sympSplit]\<rparr>"
    by (simp_all add: Periodogram_init_ok[OF t q] d_def)
  have obj: "heap s1 ! e = periodogram_of t q d" by (simp add: s1 e)
  have len: "e < length (heap s1)" by (simp add: s1 e)
  define s2 where "s2 = s1\<lparr>heap := heap s1 @ [derived_periodogram t q (map2 qadd d d)],
        calls := calls s1 @ [Call_fftfreq (length q), Call_sympSplit, Call_sympSplit]\<rparr>"
  define s3 where "s3 = s2\<lparr>heap := heap s2 @ [derived_periodogram t q (map (qscale 2) d)],
        calls := calls s2 @ [Call_fftfreq (length q), Call_sympSplit, Call_sympSplit]\<rparr>"
  have A: "Periodogram_add env e e s1 = (Inr (length (heap s1)), s2)"
    using Periodogram_add_ok[of e s1 e "map2 (\<lambda>u v. u \<noteq> v) t t" "map2 qadd d d" env] len t q
    by (simp add: obj periodogram_of_def np_map2_same s2_def)
  have obj2: "heap s2 ! e = periodogram_of t q d" using len by (simp add: s2_def nth_append obj)
  have len2: "e < length (heap s2)" using len by (simp add: s2_def)
  have M: "Periodogram_rmul env e (Scalar 2) s2 = (Inr (length (heap s2)), s3)"
    using Periodogram_mul_ok[of e s2 "Scalar 2" env] len2 t q
    by (simp add: Periodogram_rmul_def obj2 periodogram_of_def s3_def)
  have da: "p_density (heap s3 ! length (heap s1)) = map2 qadd d d"
    by (simp add: s3_def s2_def nth_append derived_periodogram_def)
  have db: "p_density (heap s3 ! length (heap s2)) = map (qscale 2) d"
    by (simp add: s3_def nth_append derived_periodogram_def)
  have d1: "p_density (heap s1 ! e) = d"
    by (simp add: obj periodogram_of_def)
  from A M da db d1 show ?thesis
    by (simp add: map2_qadd_self)
qed


theorem add_self_equals_twice_witness:
  "Periodogram_init sample_env [0, 1] (QuatArray sample_x) True init_state
     = (Inr 0, one_periodogram)
   \<and> (\<exists>a s2 b s3.
         Periodogram_add sample_env 0 0 one_periodogram = (Inr a, s2)
         \<and> Periodogram_rmul sample_env 0 (Scalar 2) s2 = (Inr b, s3)
         \<and> p_density (heap s3 ! a) = p_density (heap s3 ! b)
         \<and> p_density (heap s3 ! a) =
             map2 qadd (p_density (heap one_periodogram ! 0))
               (p_density (heap one_periodogram ! 0)))"
proof -
  have i: "Periodogram_init sample_env [0, 1] (QuatArray sample_x) True init_state
             = (Inr 0, one_periodogram)"
    by (simp add: one_periodogram_def Periodogram_init_ok sample_x_def init_state_def)
  from i add_self_equals_twice[OF i] show ?thesis by simp
qed

text \<open>
  C6.  The claim fails: scalar multiplication accepts a negative scalar.  The
  periodogram of the sample signal has \<open>S0 = [5/2, 5/2]\<close>; multiplied by \<open>-1\<close> it
  gives an estimate with \<open>S0 = [-5/2, -5/2]\<close>.
\<close>

theorem negative_scalar_counterexample:
  "fst (Periodogram_init sample_env [0, 1] (QuatArray sample_x) True init_state) = Inr 0
   \<and> snd (Periodogram_init sample_env [0, 1] (QuatArray sample_x) True init_state)
       = one_periodogram
   \<and> p_S0 (heap one_periodogram ! 0) = [5 / 2, 5 / 2]
   \<and> fst (Periodogram_rmul sample_env 0 (Scalar (- 1)) one_periodogram) = Inr 1
   \<and> p_S0 (heap (snd (Periodogram_rmul sample_env 0 (Scalar (- 1)) one_periodogram)) ! 1)
       = [- (5 / 2), - (5 / 2)]"
proof -
  have i: "Periodogram_init sample_env [0, 1] (QuatArray sample_x) True init_state
             = (Inr 0, one_periodogram)"
    by (simp add: one_periodogram_def Periodogram_init_ok sample_x_def init_state_def)
  have a: "p_S0 (heap one_periodogram ! 0) = [5 / 2, 5 / 2]"
    by (simp add: one_periodogram_eq periodogram_of_def sample_density)
  have b: "p_S0 (heap (snd (Periodogram_rmul sample_env 0 (Scalar (- 1)) one_periodogram)) ! 1)
       = [- (5 / 2), - (5 / 2)]"
    unfolding negate_one_periodogram
    by (simp add: one_periodogram_wf(4) nth_append derived_periodogram_def sample_density
        qscale_def)
  have c: "fst (Periodogram_rmul sample_env 0 (Scalar (- 1)) one_periodogram) = Inr 1"
    unfolding negate_one_periodogram by simp
  from i a b c show ?thesis by simp
qed

text \<open>
  C6, amended.  Let \<open>StokesNorm(q) j\<close> have no real part, so that the real part of the
  density is the squared-magnitude term.  Then every entry of \<open>S0\<close> is non-negative for
  every periodogram reached by construction on a non-decreasing time axis, by addition,
  and by multiplication with a non-negative operand.
\<close>

theorem S0_nonnegative_when_reachable:
  assumes "stokes_contract env" and "reachable env s"
    and "p \<in> set (heap s)" and "v \<in> set (p_S0 p)"
  shows "0 \<le> v"
  using reachable_invariant[OF assms(1,2)] assms(3,4) by auto

theorem S0_nonnegative_when_reachable_witness:
  "stokes_contract sample_env
   \<and> reachable sample_env (snd (Periodogram_add sample_env 0 1 two_periodograms))
   \<and> derived_periodogram [0, 1] sample_x [Quat (15 / 2) 0 0 6, Quat (15 / 2) 0 0 6]
       \<in> set (heap (snd (Periodogram_add sample_env 0 1 two_periodograms)))
   \<and> 15 / 2 \<in> set (p_S0 (derived_periodogram [0, 1] sample_x
                              [Quat (15 / 2) 0 0 6, Quat (15 / 2) 0 0 6]))
   \<and> (0 :: real) \<le> 15 / 2"
proof -
  let ?p = "derived_periodogram [0, 1] sample_x [Quat (15 / 2) 0 0 6, Quat (15 / 2) 0 0 6]"
  have m: "?p \<in> set (heap (snd (Periodogram_add sample_env 0 1 two_periodograms)))"
    unfolding add_two_periodograms by (simp add: sample_density qadd_def)
  have v: "15 / 2 \<in> set (p_S0 ?p)"
    by (simp add: derived_periodogram_def)
  from S0_nonnegative_when_reachable[OF stokes_contract_sample reachable_sum m v]
    stokes_contract_sample reachable_sum m v
  show ?thesis by blast
qed

text \<open>
  C7.  Let the operands be constructed estimates (a time axis of at least two samples,
  a non-empty signal) whose time axes and densities broadcast against each other, and
  let the multiplier have size 1.  Then \<open>+\<close>, \<open>*\<close> and the reflected \<open>*\<close>, for
  \<open>Periodogram\<close> and for \<open>Multitaper\<close>, return an estimate, and the estimate is a newly
  allocated object: its reference is the first one past the old heap, which grows by
  exactly this object, while every object that was on the heap before the call, the
  operands among them, is as it was, field for field.  Whatever the operands and the
  multiplier, an operator leaves the old heap as it was (also when it raises), and a
  reference it returns is the first one past the old heap.
\<close>

theorem operators_allocate_and_preserve:
  assumes "a < length (heap s)" and "b < length (heap s)"
    and "2 \<le> length (p_t (heap s ! a))" and "p_signal (heap s ! a) \<noteq> []"
    and "np_map2 (\<lambda>u v. u \<noteq> v) (p_t (heap s ! a)) (p_t (heap s ! b)) = Inr ne"
    and "np_map2 qadd (p_density (heap s ! a)) (p_density (heap s ! b)) = Inr d"
    and "a' < length (heap m)" and "b' < length (heap m)"
    and "2 \<le> length (m_t (heap m ! a'))" and "m_signal (heap m ! a') \<noteq> []"
    and "np_map2 (\<lambda>u v. u \<noteq> v) (m_t (heap m ! a')) (m_t (heap m ! b')) = Inr ne'"
    and "np_map2 qadd_nan (m_density (heap m ! a')) (m_density (heap m ! b')) = Inr d'"
    and "np_size c = 1"
  shows "(\<exists>s1. Periodogram_add env a b s = (Inr (length (heap s)), s1)
               \<and> heap s1 = heap s @ [heap s1 ! length (heap s)]
               \<and> heap s1 ! a = heap s ! a \<and> heap s1 ! b = heap s ! b)
       \<and> (\<exists>s2. Periodogram_mul env a c s = (Inr (length (heap s)), s2)
               \<and> heap s2 = heap s @ [heap s2 ! length (heap s)]
               \<and> heap s2 ! a = heap s ! a)
       \<and> (\<exists>s3. Periodogram_rmul env a c s = (Inr (length (heap s)), s3)
               \<and> heap s3 = heap s @ [heap s3 ! length (heap s)]
               \<and> heap s3 ! a = heap s ! a)
       \<and> (\<exists>m1. Multitaper_add env a' b' m = (Inr (length (heap m)), m1)
               \<and> heap m1 = heap m @ [heap m1 ! length (heap m)]
               \<and> heap m1 ! a' = heap m ! a' \<and> heap m1 ! b' = heap m ! b')
       \<and> (\<exists>m2. Multitaper_mul env a' c m = (Inr (length (heap m)), m2)
               \<and> heap m2 = heap m @ [heap m2 ! length (heap m)]
               \<and> heap m2 ! a' = heap m ! a')
       \<and> (\<exists>m3. Multitaper_rmul env a' c m = (Inr (length (heap m)), m3)
               \<and> heap m3 = heap m @ [heap m3 ! length (heap m)]
               \<and> heap m3 ! a' = heap m ! a')
       \<and> (\<forall>x y k. fresh_result s (Periodogram_add env x y s)
               \<and> fresh_result s (Periodogram_mul env x k s)
               \<and> fresh_result s (Periodogram_rmul env x k s)
               \<and> fresh_result m (Multitaper_add env x y m)
               \<and> fresh_result m (Multitaper_mul env x k m)
               \<and> fresh_result m (Multitaper_rmul env x k m))"
proof -
  have pa: "\<exists>s1. Periodogram_add env a b s = (Inr (length (heap s)), s1)
               \<and> heap s1 = heap s @ [heap s1 ! length (heap s)]
               \<and> heap s1 ! a = heap s ! a \<and> heap s1 ! b = heap s ! b"
    unfolding Periodogram_add_ok[OF assms(1-6)]
    using assms(1,2) by (simp add: nth_append)
  have pm: "\<exists>s2. Periodogram_mul env a c s = (Inr (length (heap s)), s2)
               \<and> heap s2 = heap s @ [heap s2 ! length (heap s)]
               \<and> heap s2 ! a = heap s ! a"
    unfolding Periodogram_mul_ok[OF assms(1,3,4,13)]
    using assms(1) by (simp add: nth_append)
  have pr: "\<exists>s3. Periodogram_rmul env a c s = (Inr (length (heap s)), s3)
               \<and> heap s3 = heap s @ [heap s3 ! length (heap s)]
               \<and> heap s3 ! a = heap s ! a"
    unfolding Periodogram_rmul_def by (rule pm)
  have ma: "\<exists>m1. Multitaper_add env a' b' m = (Inr (length (heap m)), m1)
               \<and> heap m1 = heap m @ [heap m1 ! length (heap m)]
               \<and> heap m1 ! a' = heap m ! a' \<and> heap m1 ! b' = heap m ! b'"
    unfolding Multitaper_add_ok[OF assms(7-12)]
    using assms(7,8) by (simp add: nth_append)
  have mm: "\<exists>m2. Multitaper_mul env a' c m = (Inr (length (heap m)), m2)
               \<and> heap m2 = heap m @ [heap m2 ! length (heap m)]
               \<and> heap m2 ! a' = heap m ! a'"
    unfolding Multitaper_mul_ok[OF assms(7,9,10,13)]
    using assms(7) by (simp add: nth_append)
  have mr: "\<exists>m3. Multitaper_rmul env a' c m = (Inr (length (heap m)), m3)
               \<and> heap m3 = heap m @ [heap m3 ! length (heap m)]
               \<and> heap m3 ! a' = heap m ! a'"
    unfolding Multitaper_rmul_def by (rule mm)
  have f1: "fresh_result s (Periodogram_add env x y s)" for x y
    using Periodogram_add_frame[OF surjective_pairing[of "Periodogram_add env x y s"]]
    by (auto simp: fresh_result_def split: sum.splits)
  have f2: "fresh_result s (Periodogram_mul env x k s)" for x k
    using Periodogram_mul_frame[OF surjective_pairing[of "Periodogram_mul env x k s"]]
    by (auto simp: fresh_result_def split: sum.splits)
  have f3: "fresh_result s (Periodogram_rmul env x k s)" for x k
    unfolding Periodogram_rmul_def by (rule f2)
  have f4: "fresh_result m (Multitaper_add env x y m)" for x y
    using Multitaper_add_frame[OF surjective_pairing[of "Multitaper_add env x y m"]]
    by (auto simp: fresh_result_def split: sum.splits)
  have f5: "fresh_result m (Multitaper_mul env x k m)" for x k
    using Multitaper_mul_frame[OF surjective_pairing[of "Multitaper_mul env x k m"]]
    by (auto simp: fresh_result_def split: sum.splits)
  have f6: "fresh_result m (Multitaper_rmul env x k m)" for x k
    unfolding Multitaper_rmul_def by (rule f5)
  from pa pm pr ma mm mr f1 f2 f3 f4 f5 f6 show ?thesis by blast
qed

theorem operators_allocate_and_preserve_witness:
  "(\<exists>s1. Periodogram_add sample_env 0 1 two_periodograms = (Inr 2, s1)
         \<and> heap s1 = heap two_periodograms @ [heap s1 ! 2]
         \<and> heap s1 ! 0 = heap two_periodograms ! 0 \<and> heap s1 ! 1 = heap two_periodograms ! 1)
   \<and> (\<exists>s2. Periodogram_mul sample_env 0 (Scalar 3) two_periodograms = (Inr 2, s2)
         \<and> heap s2 = heap two_periodograms @ [heap s2 ! 2]
         \<and> heap s2 ! 0 = heap two_periodograms ! 0)
   \<and> (\<exists>s3. Periodogram_rmul sample_env 0 (Scalar 3) two_periodograms = (Inr 2, s3)
         \<and> heap s3 = heap two_periodograms @ [heap s3 ! 2]
         \<and> heap s3 ! 0 = heap two_periodograms ! 0)
   \<and> (\<exists>m1. Multitaper_add sample_env 0 1 two_multitapers = (Inr 2, m1)
         \<and> heap m1 = heap two_multitapers @ [heap m1 ! 2]
         \<and> heap m1 ! 0 = heap two_multitapers ! 0 \<and> heap m1 ! 1 = heap two_multitapers ! 1)
   \<and> (\<exists>m2. Multitaper_mul sample_env 0 (Scalar 3) two_multitapers = (Inr 2, m2)
         \<and> heap m2 = heap two_multitapers @ [heap m2 ! 2]
         \<and> heap m2 ! 0 = heap two_multitapers ! 0)
   \<and> (\<exists>m3. Multitaper_rmul sample_env 0 (Scalar 3) two_multitapers = (Inr 2, m3)
         \<and> heap m3 = heap two_multitapers @ [heap m3 ! 2]
         \<and> heap m3 ! 0 = heap two_multitapers ! 0)
   \<and> fresh_result two_periodograms (Periodogram_add sample_env 0 1 two_periodograms)
   \<and> fresh_result two_multitapers (Multitaper_mul sample_env 0 (Scalar 3) two_multitapers)"
proof -
  have l: "length (heap two_periodograms) = 2" "length (heap two_multitapers) = 2"
    by (simp_all add: two_periodograms_eq two_multitapers_eq)
  have b: "1 < length (heap two_periodograms)" "1 < length (heap two_multitapers)"
    using l by simp_all
  have pt: "np_map2 (\<lambda>u v. u \<noteq> v) (p_t (heap two_periodograms ! 0))
              (p_t (heap two_periodograms ! 1)) = Inr [False, True]"
    by (simp add: two_periodograms_eq periodogram_of_def np_map2_same)
  have pd: "np_map2 qadd (p_density (heap two_periodograms ! 0))
              (p_density (heap two_periodograms ! 1))
            = Inr (map2 qadd (spec_periodogram_density sample_env 1 sample_x)
                     (spec_periodogram_density sample_env 2 sample_x))"
    by (simp add: two_periodograms_eq periodogram_of_def np_map2_same
        length_spec_periodogram_density Qfft_sample length_Qfft_spec)
  have mt: "np_map2 (\<lambda>u v. u \<noteq> v) (m_t (heap two_multitapers ! 0))
              (m_t (heap two_multitapers ! 1)) = Inr [False, True]"
    by (simp add: two_multitapers_eq multitaper_of_def np_map2_same)
  have md: "np_map2 qadd_nan (m_density (heap two_multitapers ! 0))
              (m_density (heap two_multitapers ! 1))
            = Inr (map2 qadd_nan (replicate 2 (Some qzero)) (replicate 2 (Some qzero)))"
    by (simp add: two_multitapers_eq multitaper_of_def np_map2_same)
  have c: "np_size (Scalar 3) = 1" by simp
  note w = operators_allocate_and_preserve
    [OF two_periodograms_wf(1) b(1) two_periodograms_wf(2,3) pt pd
        two_multitapers_wf(1) b(2) two_multitapers_wf(2,3) mt md c,
     of sample_env, unfolded l]
  then show ?thesis by blast
qed

text \<open>
  C8.  Multiplying an estimate by an operand of size greater than 1 raises the
  \<open>ValueError\<close> for non-scalar operands with the state as it was (nothing of the
  result was built).  Multiplying a constructed estimate (one with a time axis of at
  least two samples and a non-empty signal) by an operand of size 1, a number or a
  one-element array, succeeds: the new estimate's density is the operand's value times
  the density of \<open>self\<close>, entry by entry.
\<close>

theorem scalar_multiplication_guard:
  assumes "a < length (heap s)" and "2 \<le> length (p_t (heap s ! a))"
    and "p_signal (heap s ! a) \<noteq> []"
    and "a' < length (heap m)" and "2 \<le> length (m_t (heap m ! a'))"
    and "m_signal (heap m ! a') \<noteq> []"
  shows "(1 < np_size c \<longrightarrow>
            Periodogram_mul env a c s = (Inl (ValueError msg_scalar_only), s)
            \<and> Multitaper_mul env a' c m = (Inl (ValueError msg_scalar_only), m))
       \<and> (np_size c = 1 \<longrightarrow>
            (\<exists>s'. Periodogram_mul env a c s = (Inr (length (heap s)), s')
                  \<and> p_density (heap s' ! length (heap s))
                      = map (qscale (scalar_value c)) (p_density (heap s ! a)))
            \<and> (\<exists>m'. Multitaper_mul env a' c m = (Inr (length (heap m)), m')
                  \<and> m_density (heap m' ! length (heap m))
                      = map (qscale_nan (scalar_value c)) (m_density (heap m ! a'))))"
proof (intro conjI impI)
  assume "1 < np_size c"
  then show "Periodogram_mul env a c s = (Inl (ValueError msg_scalar_only), s)"
    and "Multitaper_mul env a' c m = (Inl (ValueError msg_scalar_only), m)"
    by (simp_all add: Periodogram_mul_def Multitaper_mul_def)
next
  assume c: "np_size c = 1"
  show "\<exists>s'. Periodogram_mul env a c s = (Inr (length (heap s)), s')
          \<and> p_density (heap s' ! length (heap s))
              = map (qscale (scalar_value c)) (p_density (heap s ! a))"
    unfolding Periodogram_mul_ok[OF assms(1-3) c]
    by (simp add: derived_periodogram_def)
  show "\<exists>m'. Multitaper_mul env a' c m = (Inr (length (heap m)), m')
          \<and> m_density (heap m' ! length (heap m))
              = map (qscale_nan (scalar_value c)) (m_density (heap m ! a'))"
    unfolding Multitaper_mul_ok[OF assms(4-6) c]
    by (simp add: derived_multitaper_def)
qed

theorem scalar_multiplication_guard_witness:
  "np_size (Array [1, 2]) = 2
   \<and> Periodogram_mul sample_env 0 (Array [1, 2]) two_periodograms
       = (Inl (ValueError msg_scalar_only), two_periodograms)
   \<and> Multitaper_mul sample_env 0 (Array [1, 2]) two_multitapers
       = (Inl (ValueError msg_scalar_only), two_multitapers)
   \<and> np_size (Array [3]) = 1
   \<and> (\<exists>s'. Periodogram_mul sample_env 0 (Array [3]) two_periodograms = (Inr 2, s')
          \<and> p_density (heap s' ! 2) = map (qscale 3) (p_density (heap two_periodograms ! 0)))
   \<and> (\<exists>m'. Multitaper_mul sample_env 0 (Array [3]) two_multitapers = (Inr 2, m')
          \<and> m_density (heap m' ! 2)
              = map (qscale_nan 3) (m_density (heap two_multitapers ! 0)))"
proof -
  note big = scalar_multiplication_guard
    [OF two_periodograms_wf(1-3) two_multitapers_wf(1-3), of "Array [1, 2]" sample_env]
  note one = scalar_multiplication_guard
    [OF two_periodograms_wf(1-3) two_multitapers_wf(1-3), of "Array [3]" sample_env]
  have b: "Periodogram_mul sample_env 0 (Array [1, 2]) two_periodograms
       = (Inl (ValueError msg_scalar_only), two_periodograms)"
    "Multitaper_mul sample_env 0 (Array [1, 2]) two_multitapers
       = (Inl (ValueError msg_scalar_only), two_multitapers)"
    using big by simp_all
  have o: "\<exists>s'. Periodogram_mul sample_env 0 (Array [3]) two_periodograms = (Inr 2, s')
          \<and> p_density (heap s' ! 2) = map (qscale 3) (p_density (heap two_periodograms ! 0))"
    "\<exists>m'. Multitaper_mul sample_env 0 (Array [3]) two_multitapers = (Inr 2, m')
          \<and> m_density (heap m' ! 2)
              = map (qscale_nan 3) (m_density (heap two_multitapers ! 0))"
    using one by (simp_all add: two_periodograms_wf(4) two_multitapers_wf(4))
  from b o show ?thesis by simp
qed

text \<open>
  C9.  A signal array whose dtype is not quaternion makes both constructors raise the
  \<open>ValueError\<close> for the input type at once: the state comes back as it was, so no
  object was built and no frequency axis, density or Stokes computation was started.
\<close>

theorem invalid_input_type_raised_first:
  "dtype x \<noteq> ''quaternion'' \<Longrightarrow>
     Periodogram_init env t x computeFlag s = (Inl (ValueError msg_not_quaternion), s)
     \<and> Multitaper_init env t x bw computeFlag s' = (Inl (ValueError msg_not_quaternion), s')"
  by (simp add: Periodogram_init_def Multitaper_init_def)

theorem invalid_input_type_raised_first_witness:
  "dtype (FloatArray [1, 2]) \<noteq> ''quaternion''
   \<and> Periodogram_init sample_env [0, 1] (FloatArray [1, 2]) True init_state
       = (Inl (ValueError msg_not_quaternion), init_state)
   \<and> Multitaper_init sample_env [0, 1] (FloatArray [1, 2]) (5 / 2) True init_state
       = (Inl (ValueError msg_not_quaternion), init_state)"
  using invalid_input_type_raised_first
    [of "FloatArray [1, 2]" sample_env "[0, 1]" True init_state "5 / 2" init_state]
  by simp

text \<open>
  C10.  The claim fails in one point: \<open>Multitaper.compute\<close> assigns \<open>self.dpss\<close> as
  well as \<open>self.densities\<close>.  For the sample estimate built with
  \<open>computeFlag=False\<close>, the taper field is all zero before the manual \<open>compute()\<close> and
  holds the generator's tapers after it (as for every generator that returns a taper
  with a non-zero entry).
\<close>

theorem compute_replaces_tapers_counterexample:
  "fst (Multitaper_init sample_env [0, 1] (QuatArray sample_x) (5 / 2) False init_state) = Inr 0
   \<and> snd (Multitaper_init sample_env [0, 1] (QuatArray sample_x) (5 / 2) False init_state)
       = one_multitaper
   \<and> m_dpss (heap one_multitaper ! 0) = [[0, 0, 0, 0], [0, 0, 0, 0]]
   \<and> fst (Multitaper_compute_at sample_env 0 (5 / 2) one_multitaper) = Inr ()
   \<and> m_dpss (heap (snd (Multitaper_compute_at sample_env 0 (5 / 2) one_multitaper)) ! 0)
       = [[1, 1, 1, 1], [1, 2, 4, 8]]"
proof -
  have i: "Multitaper_init sample_env [0, 1] (QuatArray sample_x) (5 / 2) False init_state
             = (Inr 0, one_multitaper)"
    by (simp add: one_multitaper_def Multitaper_init_deferred[OF _ _ default_bandwidth]
        sample_x_def init_state_def)
  have a: "m_dpss (heap one_multitaper ! 0) = [[0, 0, 0, 0], [0, 0, 0, 0]]"
    by (simp add: one_multitaper_eq multitaper_of_def numeral_2_eq_2 replicate.simps
        eval_nat_numeral)
  from Multitaper_compute_at_ok[OF qfft_contract_sample one_multitaper_wf, of "5 / 2"]
  obtain D s' where c: "Multitaper_compute_at sample_env 0 (5 / 2) one_multitaper = (Inr (), s')"
    and h: "heap s' = (heap one_multitaper)[0 := (heap one_multitaper ! 0)
               \<lparr>m_dpss := taper_array sample_env 2 (5 / 2) 4, m_densities := D\<rparr>]"
    by blast
  have b: "m_dpss (heap s' ! 0) = [[1, 1, 1, 1], [1, 2, 4, 8]]"
    using one_multitaper_wf(1) by (simp add: h sample_taper_array)
  from i a b c show ?thesis by simp
qed

text \<open>
  C10, amended.  Let \<open>Qfft\<close> return an array of the length of its input, \<open>t\<close> have at
  least two samples, \<open>x\<close> be a non-empty quaternion signal and the taper count
  \<open>K = floor(2 bw) - 1\<close> be at least 1.  On an estimate constructed with
  \<open>computeFlag=False\<close> a manual \<open>compute()\<close> succeeds and changes \<open>density\<close> alone for a
  \<open>Periodogram\<close>, and \<open>densities\<close> and \<open>dpss\<close> alone for a \<open>Multitaper\<close>; the new
  density is the computed one (for \<open>Multitaper\<close>, taper by taper), while the fields
  \<open>S0\<close> to \<open>S3\<close> keep the zeros of the construction, and so does the averaged density of
  the \<open>Multitaper\<close>.
\<close>

theorem deferred_compute_leaves_stokes:
  assumes "qfft_contract env" and "2 \<le> length t" and "x \<noteq> []"
    and "\<lfloor>2 * bw\<rfloor> - 1 = int K" and "0 < K"
  shows "\<exists>s1 s2 m1 m2 D.
           Periodogram_init env t (QuatArray x) False s = (Inr (length (heap s)), s1)
           \<and> Periodogram_compute_at env (length (heap s)) s1 = (Inr (), s2)
           \<and> heap s2 ! length (heap s)
               = (heap s1 ! length (heap s))
                   \<lparr>p_density := spec_periodogram_density env (t ! 1 - t ! 0) x\<rparr>
           \<and> p_S0 (heap s2 ! length (heap s)) = replicate (length x) 0
           \<and> p_S1 (heap s2 ! length (heap s)) = replicate (length x) 0
           \<and> p_S2 (heap s2 ! length (heap s)) = replicate (length x) 0
           \<and> p_S3 (heap s2 ! length (heap s)) = replicate (length x) 0
           \<and> Multitaper_init env t (QuatArray x) bw False m = (Inr (length (heap m)), m1)
           \<and> Multitaper_compute_at env (length (heap m)) bw' m1 = (Inr (), m2)
           \<and> heap m2 ! length (heap m)
               = (heap m1 ! length (heap m))
                   \<lparr>m_dpss := taper_array env (length x) bw' K, m_densities := D\<rparr>
           \<and> (\<forall>n<K. column n D = spec_taper_density env (t ! 1 - t ! 0) x
                                     (column n (taper_array env (length x) bw' K)))
           \<and> m_density (heap m2 ! length (heap m)) = replicate (length x) (Some qzero)
           \<and> m_S0 (heap m2 ! length (heap m)) = replicate (length x) (Some 0)
           \<and> m_S1 (heap m2 ! length (heap m)) = replicate (length x) (Some 0)
           \<and> m_S2 (heap m2 ! length (heap m)) = replicate (length x) (Some 0)
           \<and> m_S3 (heap m2 ! length (heap m)) = replicate (length x) (Some 0)"
proof -
  let ?r = "length (heap s)" and ?q = "length (heap m)" and ?N = "length x"
  define p0 where "p0 = periodogram_of t x (replicate ?N qzero)"
  define s1 where "s1 = s\<lparr>heap := heap s @ [p0],
                          calls := calls s @ [Call_fftfreq ?N, Call_sympSplit]\<rparr>"
  have pi: "Periodogram_init env t (QuatArray x) False s = (Inr ?r, s1)"
    using Periodogram_init_ok[OF assms(2,3), of env False s] by (simp add: s1_def p0_def)
  have o1: "heap s1 ! ?r = p0" "?r < length (heap s1)" by (simp_all add: s1_def)
  have p0: "p_t p0 = t" "p_signal p0 = x" "p_S0 p0 = replicate ?N 0" "p_S1 p0 = replicate ?N 0"
    "p_S2 p0 = replicate ?N 0" "p_S3 p0 = replicate ?N 0"
    by (simp_all add: p0_def periodogram_of_def qzero_def)
  define s2 where "s2 = s1\<lparr>heap := (heap s1)[?r := p0\<lparr>p_density :=
                               spec_periodogram_density env (t ! 1 - t ! 0) x\<rparr>],
                           calls := calls s1 @ [Call_Qfft, Call_StokesNorm]\<rparr>"
  have pc: "Periodogram_compute_at env ?r s1 = (Inr (), s2)"
    using Periodogram_compute_at_ok[of ?r s1 env] o1 assms(2,3) by (simp add: p0 s2_def)
  have o2: "heap s2 ! ?r = p0\<lparr>p_density := spec_periodogram_density env (t ! 1 - t ! 0) x\<rparr>"
    using o1(2) by (simp add: s2_def)
  define q0 where "q0 = multitaper_of t x (replicate ?N (replicate K qzero))
                          (replicate ?N (replicate K 0)) (replicate ?N (Some qzero))"
  define m1 where "m1 = m\<lparr>heap := heap m @ [q0],
                          calls := calls m @ [Call_fftfreq ?N, Call_sympSplit]\<rparr>"
  have mi: "Multitaper_init env t (QuatArray x) bw False m = (Inr ?q, m1)"
    using Multitaper_init_deferred[OF assms(2,3,4), of env m] assms(5)
    by (simp add: m1_def q0_def)
  have n1: "heap m1 ! ?q = q0" "?q < length (heap m1)" by (simp_all add: m1_def)
  have q0: "m_t q0 = t" "m_signal q0 = x" "m_density q0 = replicate ?N (Some qzero)"
    "m_S0 q0 = replicate ?N (Some 0)" "m_S1 q0 = replicate ?N (Some 0)"
    "m_S2 q0 = replicate ?N (Some 0)" "m_S3 q0 = replicate ?N (Some 0)"
    "length (m_dpss q0) = ?N" "\<forall>row\<in>set (m_dpss q0). length row = K"
    "length (m_densities q0) = ?N" "\<forall>row\<in>set (m_densities q0). length row = K"
    by (simp_all add: q0_def multitaper_of_def qzero_def)
  have N: "0 < ?N" using assms(3) by simp
  from Multitaper_compute_at_ok[OF assms(1) n1(2), of ?N K bw'] assms(2) N q0
  obtain D m2 where mc: "Multitaper_compute_at env ?q bw' m1 = (Inr (), m2)"
    and hm: "heap m2 = (heap m1)[?q := q0\<lparr>m_dpss := taper_array env ?N bw' K,
                                            m_densities := D\<rparr>]"
    and cols: "\<forall>n<K. column n D = spec_taper_density env (t ! 1 - t ! 0) x
                                     (column n (taper_array env ?N bw' K))"
    unfolding n1(1) q0(1,2) by blast
  have n2: "heap m2 ! ?q = q0\<lparr>m_dpss := taper_array env ?N bw' K, m_densities := D\<rparr>"
    using n1(2) by (simp add: hm)
  show ?thesis
    apply (rule exI[of _ s1], rule exI[of _ s2], rule exI[of _ m1], rule exI[of _ m2],
        rule exI[of _ D])
    apply (simp only: pi pc mi mc o1 o2 n1 n2)
    apply (insert cols)
    apply (simp add: p0 q0)
    done
qed

theorem deferred_compute_leaves_stokes_witness:
  "qfft_contract sample_env
   \<and> \<lfloor>2 * (5 / 2 :: real)\<rfloor> - 1 = int 4
   \<and> (\<exists>s1 s2 m1 m2.
         Periodogram_init sample_env [0, 1] (QuatArray sample_x) False init_state = (Inr 0, s1)
         \<and> Periodogram_compute_at sample_env 0 s1 = (Inr (), s2)
         \<and> p_density (heap s2 ! 0) = [Quat (5 / 2) 0 0 2, Quat (5 / 2) 0 0 2]
         \<and> p_S0 (heap s2 ! 0) = [0, 0]
         \<and> Multitaper_init sample_env [0, 1] (QuatArray sample_x) (5 / 2) False init_state
             = (Inr 0, m1)
         \<and> Multitaper_compute_at sample_env 0 (5 / 2) m1 = (Inr (), m2)
         \<and> m_dpss (heap m2 ! 0) = [[1, 1, 1, 1], [1, 2, 4, 8]]
         \<and> m_density (heap m2 ! 0) = [Some qzero, Some qzero]
         \<and> m_S0 (heap m2 ! 0) = [Some 0, Some 0])"
proof -
  have l: "2 \<le> length [0, 1 :: real]" "sample_x \<noteq> []" "length sample_x = 2" "0 < (4 :: nat)"
    by (simp_all add: sample_x_def)
  have z: "length (heap (init_state :: periodogram state)) = 0"
    "length (heap (init_state :: multitaper state)) = 0"
    by (simp_all add: init_state_def)
  from deferred_compute_leaves_stokes
    [OF qfft_contract_sample l(1,2) default_bandwidth l(4), of init_state init_state "5 / 2",
     unfolded z l(3)]
  obtain s1 s2 m1 m2 D where
    a: "Periodogram_init sample_env [0, 1] (QuatArray sample_x) False init_state = (Inr 0, s1)"
    and b: "Periodogram_compute_at sample_env 0 s1 = (Inr (), s2)"
    and c: "heap s2 ! 0 = (heap s1 ! 0)
              \<lparr>p_density := spec_periodogram_density sample_env ([0, 1] ! 1 - [0, 1] ! 0) sample_x\<rparr>"
    and d: "p_S0 (heap s2 ! 0) = replicate 2 0"
    and e: "Multitaper_init sample_env [0, 1] (QuatArray sample_x) (5 / 2) False init_state
             = (Inr 0, m1)"
    and f: "Multitaper_compute_at sample_env 0 (5 / 2) m1 = (Inr (), m2)"
    and g: "heap m2 ! 0 = (heap m1 ! 0)
              \<lparr>m_dpss := taper_array sample_env 2 (5 / 2) 4, m_densities := D\<rparr>"
    and h: "m_density (heap m2 ! 0) = replicate 2 (Some qzero)"
    and i: "m_S0 (heap m2 ! 0) = replicate 2 (Some 0)"
    by blast
  have c': "p_density (heap s2 ! 0) = [Quat (5 / 2) 0 0 2, Quat (5 / 2) 0 0 2]"
    by (simp add: c sample_density)
  have d': "p_S0 (heap s2 ! 0) = [0, 0]"
    by (simp add: d numeral_2_eq_2)
  have g': "m_dpss (heap m2 ! 0) = [[1, 1, 1, 1], [1, 2, 4, 8]]"
    by (simp add: g sample_taper_array)
  have h': "m_density (heap m2 ! 0) = [Some qzero, Some qzero]"
    by (simp add: h numeral_2_eq_2)
  have i': "m_S0 (heap m2 ! 0) = [Some 0, Some 0]"
    by (simp add: i numeral_2_eq_2)
  from qfft_contract_sample default_bandwidth a b c' d' e f g' h' i' show ?thesis by blast
qed

end
